theory Spec2Isabelle
  imports Main "HOL-Library.Word" "HOL-Library.Sublist" "HOL-Library.Signed_Division"
    "HOL-Library.Log_Nat"
begin

unbundle bit_operations_syntax

section \<open>The naps plugin of KernelShark\<close>

text \<open>
  The plugin collects \<open>sched_switch\<close> and \<open>sched_waking\<close> entries while a trace is
  loaded (\<open>naps.c\<close>) and draws a rectangle between a switch and the next waking of the
  same task (\<open>Naps.cpp\<close>, \<open>NapRectangle.cpp\<close>).

  Naming: an Isabelle name cannot start with an underscore, so the leading underscores of
  the source are dropped: \<open>_select_events\<close> is \<open>select_events\<close>, \<open>_make_nap_rect\<close> is
  \<open>make_nap_rect\<close>, \<open>__get_context\<close> is \<open>get_context\<close>, \<open>__init\<close> is \<open>init_context\<close>,
  \<open>__close\<close> is \<open>close_context\<close>. The static \<open>_draw_nap_rectangles\<close> of \<open>Naps.cpp\<close>
  is \<open>draw_nap_rectangles_static\<close>, since \<open>draw_nap_rectangles\<close> is its exported wrapper.
  The constructor of \<open>NapRectangle\<close> is \<open>NapRectangle_new\<close>, and \<open>std::map::at\<close> and
  \<open>std::string::find\<close> are \<open>map_at\<close> and \<open>std_find\<close>.

  A function that can throw returns a sum, \<open>Inl\<close> with the fault or \<open>Inr\<close> with the
  result.
\<close>

subsection \<open>Data of the host (libkshark) used by the plugin\<close>

text \<open>
  Constants of the headers of KernelShark; their values are not part of the plugin,
  so every definition takes them as a parameter.
\<close>

record host_consts =
  KS_EVENT_VIEW_FILTER_MASK :: "16 word"
  KS_GRAPH_VIEW_FILTER_MASK :: "16 word"
  KS_PLUGIN_UNTOUCHED_MASK :: "16 word"
  KSHARK_TASK_DRAW :: int
  COUPLEBREAK_SWT_ID :: int

text \<open>
  \<open>struct kshark_entry\<close>, with the fields the plugin reads or writes. \<open>info\<close> is the
  string \<open>kshark_get_info\<close> returns for the entry. Integer fields that are only stored and
  compared are \<open>int\<close>; the casts of the source are written out where they happen.
\<close>

record kshark_entry =
  visible :: "16 word"
  event_id :: int
  pid :: int
  info :: string

text \<open>Entries belong to the host; the plugin holds pointers to them.\<close>

type_synonym entry_ptr = nat
type_synonym entry_store = "entry_ptr \<Rightarrow> kshark_entry"

text \<open>\<open>struct kshark_data_field_int64\<close> and the container of such records.\<close>

record kshark_data_field_int64 =
  entry :: entry_ptr
  field :: int

type_synonym kshark_data_container = "kshark_data_field_int64 list"

text \<open>
  Modelled from the spec: \<open>kshark_data_container_append\<close> of the host, which puts the
  record behind the records collected so far ("an ordered, append-only store of
  (entry-reference, auxiliary-key) pairs").
\<close>

definition kshark_data_container_append ::
  "kshark_data_container \<Rightarrow> entry_ptr \<Rightarrow> int \<Rightarrow> kshark_data_container" where
  "kshark_data_container_append data_c e f = data_c @ [\<lparr>entry = e, field = f\<rparr>]"

text \<open>
  Modelled from the spec: \<open>tep_read_number_field\<close> of the trace library, the attempt
  "to read a named integer field (pid) from the raw record", which succeeds or fails. A
  tep record is taken as far as the plugin looks at it: the value that is read from it
  for the \<open>pid\<close> field, \<open>None\<close> when the read fails (a non-zero return). Without a
  field descriptor (a null pointer) the read fails.
\<close>

type_synonym handle = nat
type_synonym tep_record = "64 word option"

definition tep_read_number_field :: "handle option \<Rightarrow> tep_record \<Rightarrow> 64 word option" where
  "tep_read_number_field fld rec = (case fld of None \<Rightarrow> None | Some _ \<Rightarrow> rec)"

datatype handler = Select_events | Draw_nap_rectangles

record kshark_data_stream =
  stream_id :: int
  couplebreak_on :: bool
  event_handlers :: "(int \<times> handler) list"
  draw_handlers :: "handler list"

subsection \<open>The plugin context (naps.h)\<close>

record plugin_naps_context =
  collected_events :: "kshark_data_container option"
  sswitch_event_id :: int
  waking_event_id :: int
  tep :: "handle option"
  tep_waking :: "handle option"
  sched_waking_pid_field :: "handle option"

text \<open>
  The state the C part works on: the table of contexts that
  \<open>KS_DEFINE_PLUGIN_CONTEXT\<close> defines, the entries of the host, and the two font
  paths of \<open>naps.c\<close>.
\<close>

record plugin_state =
  context_handler :: "int \<rightharpoonup> plugin_naps_context"
  entries :: entry_store
  font_file :: "string option"
  bold_font_path :: "string option"

text \<open>
  Modelled from the spec: the lookup \<open>__get_context\<close> that the macro
  \<open>KS_DEFINE_PLUGIN_CONTEXT\<close> of the host generates; there is one context per loaded
  stream, found by the stream identifier, and none (a null pointer) for a stream that has
  not been initialised.
\<close>

definition get_context :: "int \<Rightarrow> plugin_state \<Rightarrow> plugin_naps_context option" where
  "get_context sd st = context_handler st sd"

subsection \<open>Classification at load time (naps.c)\<close>

text \<open>
  \<open>waking_evt_tep_processing\<close>: \<open>val\<close> is an \<open>unsigned long long\<close>; the entry's pid
  becomes \<open>(int32_t)val\<close> and the appended field is \<open>val\<close> passed as \<open>int64_t\<close>.
  The context is returned with its container updated, next to the entries.
\<close>

definition waking_evt_tep_processing ::
  "host_consts \<Rightarrow> plugin_naps_context \<Rightarrow> tep_record \<Rightarrow> entry_ptr \<Rightarrow> entry_store
    \<Rightarrow> plugin_naps_context \<times> entry_store" where
  "waking_evt_tep_processing K ctx rec e es =
     (case tep_read_number_field (sched_waking_pid_field ctx) rec of
        Some val \<Rightarrow>
          (let es' = es(e := (es e)\<lparr>
                 pid := sint (ucast val :: 32 word),
                 visible := visible (es e) AND NOT (KS_PLUGIN_UNTOUCHED_MASK K)\<rparr>)
           in (ctx\<lparr>collected_events :=
                     map_option (\<lambda>c. kshark_data_container_append c e (sint val))
                       (collected_events ctx)\<rparr>, es'))
      | None \<Rightarrow>
          (ctx\<lparr>collected_events :=
                 map_option (\<lambda>c. kshark_data_container_append c e (- 1))
                   (collected_events ctx)\<rparr>, es))"

text \<open>
  \<open>_select_events\<close>, in the build for the modified KernelShark (with couplebreak); a
  stream of an unmodified KernelShark is one whose \<open>couplebreak_on\<close> is false.
\<close>

definition select_events ::
  "host_consts \<Rightarrow> kshark_data_stream \<Rightarrow> tep_record \<Rightarrow> entry_ptr \<Rightarrow> plugin_state
    \<Rightarrow> plugin_state" where
  "select_events K stream rec e st =
     (case get_context (stream_id stream) st of
        None \<Rightarrow> st
      | Some nr_ctx \<Rightarrow>
          (case collected_events nr_ctx of
             None \<Rightarrow> st
           | Some nr_ctx_collected_events \<Rightarrow>
               if event_id (entries st e) = sswitch_event_id nr_ctx then
                 st\<lparr>context_handler := (context_handler st)(stream_id stream \<mapsto>
                      nr_ctx\<lparr>collected_events :=
                        Some (kshark_data_container_append nr_ctx_collected_events e (- 1))\<rparr>)\<rparr>
               else if event_id (entries st e) = waking_event_id nr_ctx then
                 (if couplebreak_on stream then
                    st\<lparr>context_handler := (context_handler st)(stream_id stream \<mapsto>
                         nr_ctx\<lparr>collected_events :=
                           Some (kshark_data_container_append nr_ctx_collected_events e
                                   (pid (entries st e)))\<rparr>)\<rparr>
                  else
                    (case waking_evt_tep_processing K nr_ctx rec e (entries st) of
                       (nr_ctx', es') \<Rightarrow>
                         st\<lparr>context_handler :=
                              (context_handler st)(stream_id stream \<mapsto> nr_ctx'),
                            entries := es'\<rparr>))
               else st))"

subsection \<open>Candidate predicates at render time (Naps.cpp)\<close>

text \<open>\<open>_nap_rect_check_function_general\<close>; \<open>None\<close> is the null pointer.\<close>

definition nap_rect_check_function_general :: "host_consts \<Rightarrow> kshark_entry option \<Rightarrow> bool" where
  "nap_rect_check_function_general K e =
     (case e of
        None \<Rightarrow> False
      | Some en \<Rightarrow>
          (let is_visible_event = (visible en AND KS_EVENT_VIEW_FILTER_MASK K \<noteq> 0);
               is_visible_graph = (visible en AND KS_GRAPH_VIEW_FILTER_MASK K \<noteq> 0)
           in is_visible_event \<and> is_visible_graph))"

text \<open>
  The two lambdas of \<open>_draw_nap_rectangles\<close>; they capture the context and \<open>val\<close>
  (and here the entries the pointers lead to). The host calls them with an index inside
  the container.
\<close>

definition nap_rect_check_func_switch ::
  "host_consts \<Rightarrow> plugin_naps_context \<Rightarrow> int \<Rightarrow> entry_store
    \<Rightarrow> kshark_data_container \<Rightarrow> nat \<Rightarrow> bool" where
  "nap_rect_check_func_switch K ctx val es data_c t =
     (let en = es (entry (data_c ! t));
          is_switch = (event_id en = sswitch_event_id ctx);
          correct_pid = (pid en = val)
      in nap_rect_check_function_general K (Some en) \<and> is_switch \<and> correct_pid)"

definition nap_rect_check_func_waking ::
  "host_consts \<Rightarrow> plugin_naps_context \<Rightarrow> int \<Rightarrow> entry_store
    \<Rightarrow> kshark_data_container \<Rightarrow> nat \<Rightarrow> bool" where
  "nap_rect_check_func_waking K ctx val es data_c i =
     (let en = es (entry (data_c ! i));
          d_field = field (data_c ! i);
          is_waking = (event_id en = waking_event_id ctx);
          correct_waking_pid = (d_field = val)
      in nap_rect_check_function_general K (Some en) \<and> is_waking \<and> correct_waking_pid)"

subsection \<open>Colours, faults and the tables of the renderer\<close>

text \<open>\<open>KsPlot::Color\<close> has three \<open>uint8_t\<close> components; a point is \<open>(x, y)\<close>.\<close>

datatype Color = Color (c_r: "8 word") (c_g: "8 word") (c_b: "8 word")

type_synonym point = "int \<times> int"

text \<open>What the C++ part can throw or trip over.\<close>

datatype fault = Out_of_range | Null_pointer

text \<open>\<open>std::map::at\<close> throws \<open>std::out_of_range\<close> for a key that is not in the map.\<close>

definition map_at :: "('k \<rightharpoonup> 'v) \<Rightarrow> 'k \<Rightarrow> fault + 'v" where
  "map_at m k = (case m k of None \<Rightarrow> Inl Out_of_range | Some v \<Rightarrow> Inr v)"

definition PREV_STATE_TO_COLOR :: "char \<rightharpoonup> Color" where
  "PREV_STATE_TO_COLOR = map_of
     [(CHR ''D'', Color 255 0 0),
      (CHR ''I'', Color 255 255 0),
      (CHR ''P'', Color 255 165 0),
      (CHR ''R'', Color 0 255 0),
      (CHR ''S'', Color 0 0 255),
      (CHR ''T'', Color 0 255 255),
      (CHR ''t'', Color 139 69 19),
      (CHR ''X'', Color 255 0 255),
      (CHR ''Z'', Color 128 0 128)]"

definition LETTER_TO_NAME :: "char \<rightharpoonup> string" where
  "LETTER_TO_NAME = map_of
     [(CHR ''D'', ''uninterruptible (disk) sleep''),
      (CHR ''I'', ''idle''),
      (CHR ''P'', ''parked''),
      (CHR ''R'', ''running''),
      (CHR ''S'', ''sleeping''),
      (CHR ''T'', ''stopped''),
      (CHR ''t'', ''tracing stop''),
      (CHR ''X'', ''dead''),
      (CHR ''Z'', ''zombie'')]"

definition FONT_SIZE :: nat where
  "FONT_SIZE = 7"

text \<open>The configuration singleton \<open>NapConfig\<close>.\<close>

record NapConfig =
  histo_entries_limit :: int
  use_task_coloring :: bool

subsection \<open>The previous state of a switch entry (NapRectangle.cpp)\<close>

text \<open>
  \<open>std::string::find\<close>: the first position where the pattern starts, \<open>None\<close> for
  \<open>npos\<close>. \<open>npos\<close> is the largest \<open>size_t\<close>.
\<close>

fun std_find :: "string \<Rightarrow> string \<Rightarrow> nat option" where
  "std_find [] pat = (if pat = [] then Some 0 else None)"
| "std_find (c # cs) pat =
     (if prefix pat (c # cs) then Some 0 else map_option Suc (std_find cs pat))"

definition npos :: "64 word" where
  "npos = - 1"

text \<open>
  \<open>get_switch_prev_state\<close>: \<open>start - 1\<close> is computed in \<open>size_t\<close>, so it wraps;
  \<open>substr(pos, 1)\<close> throws \<open>std::out_of_range\<close> when \<open>pos\<close> is larger than the size of
  the string; \<open>[0]\<close> of an empty string is the terminating null character.
\<close>

definition get_switch_prev_state :: "kshark_entry \<Rightarrow> fault + char" where
  "get_switch_prev_state en =
     (let info_as_str = info en;
          start = (case std_find info_as_str '' ==>'' of
                     None \<Rightarrow> npos
                   | Some i \<Rightarrow> (word_of_nat i :: 64 word));
          pos = unat (start - 1)
      in if length info_as_str < pos then Inl Out_of_range
         else Inr (case take 1 (drop pos info_as_str) of
                     [] \<Rightarrow> CHR 0x00
                   | prev_state # _ \<Rightarrow> prev_state))"

subsection \<open>Single precision arithmetic\<close>

text \<open>
  \<open>_get_color_intensity\<close> computes in \<open>float\<close>. A finite \<open>float\<close> is a rational number;
  an operation gives the exact result rounded to the nearest number with a significand
  of 24 bits, ties to the even significand (IEEE 754 binary32, each operation rounded on
  its own, no overflow in the range used here).
\<close>

definition round_half_even :: "rat \<Rightarrow> int" where
  "round_half_even y =
     (let f = \<lfloor>y\<rfloor>; d = y - of_int f
      in if d < 1 / 2 then f else if 1 / 2 < d then f + 1 else if even f then f else f + 1)"

definition f32_round :: "rat \<Rightarrow> rat" where
  "f32_round x =
     (if x = 0 then 0
      else let e = bitlen \<lfloor>\<bar>x\<bar> * 2 ^ 149\<rfloor> - 150;
               q = 2 powi (max e (- 126) - 23)
           in of_int (round_half_even (x / q)) * q)"

definition f32_mul :: "rat \<Rightarrow> rat \<Rightarrow> rat" where
  "f32_mul x y = f32_round (x * y)"

definition f32_add :: "rat \<Rightarrow> rat \<Rightarrow> rat" where
  "f32_add x y = f32_round (x + y)"

subsection \<open>Colours of a nap rectangle (Naps.cpp)\<close>

text \<open>
  \<open>_get_task_color\<close>; the colour table of the host is a parameter.
  \<open>(uint8_t)256\<close> is the numeral 256 at type \<open>8 word\<close>.
\<close>

definition get_task_color :: "(int \<rightharpoonup> Color) \<Rightarrow> int \<Rightarrow> Color" where
  "get_task_color pid_color_table p =
     (let DEFAULT_COLOR = Color (256 :: 8 word) (256 :: 8 word) (256 :: 8 word);
          result_color = DEFAULT_COLOR;
          pid_color_exists = (pid_color_table p \<noteq> None)
      in if pid_color_exists then the (pid_color_table p) else result_color)"

definition WHITE :: Color where
  "WHITE = Color 0xFF 0xFF 0xFF"

definition BLACK :: Color where
  "BLACK = Color 0 0 0"

definition INTENSITY_LIMIT :: rat where
  "INTENSITY_LIMIT = 128"

definition black_or_white_text :: "rat \<Rightarrow> Color" where
  "black_or_white_text bg_color_intensity =
     (if INTENSITY_LIMIT < bg_color_intensity then BLACK else WHITE)"

definition get_color_intensity :: "Color \<Rightarrow> rat" where
  "get_color_intensity c =
     f32_add
       (f32_add (f32_mul (of_nat (unat (c_b c))) (f32_round (114 / 1000)))
                (f32_mul (of_nat (unat (c_g c))) (f32_round (587 / 1000))))
       (f32_mul (of_nat (unat (c_r c))) (f32_round (299 / 1000)))"

text \<open>
  The luminance as the spec words it, with the exact coefficients 0.299, 0.587 and
  0.114 and without rounding; the text colour of the source is compared with it.
\<close>

definition luminance :: "Color \<Rightarrow> rat" where
  "luminance c = 299 / 1000 * of_nat (unat (c_r c)) + 587 / 1000 * of_nat (unat (c_g c))
     + 114 / 1000 * of_nat (unat (c_b c))"

subsection \<open>The nap rectangle (NapRectangle.cpp, Naps.cpp)\<close>

record Rectangle =
  rect_color :: Color
  rect_fill :: bool
  rect_points :: "point list"

record Line =
  line_color :: Color
  line_a :: point
  line_b :: point

record TextBox =
  text_string :: string
  text_color :: Color
  text_pos :: point

record NapRectangle =
  start_entry :: entry_ptr
  end_entry :: entry_ptr
  rect :: Rectangle
  outline_up :: Line
  outline_down :: Line
  text_box :: TextBox
  raw_text :: string

text \<open>\<open>std::toupper\<close> in the C locale.\<close>

definition toupper :: "char \<Rightarrow> char" where
  "toupper c =
     (let n = (of_char c :: nat) in if 97 \<le> n \<and> n \<le> 122 then char_of (n - 32) else c)"

text \<open>
  The constructor of \<open>NapRectangle\<close>. The division of \<open>int\<close>s truncates; the product
  with the size of the text is computed in \<open>size_t\<close>.
\<close>

definition NapRectangle_new ::
  "entry_store \<Rightarrow> entry_ptr \<Rightarrow> entry_ptr \<Rightarrow> Rectangle \<Rightarrow> Color \<Rightarrow> Color
    \<Rightarrow> fault + NapRectangle" where
  "NapRectangle_new es start_e end_e rct outline_col text_col =
     (let upper_point_a = rect_points rct ! 0;
          upper_point_b = rect_points rct ! 3;
          lower_point_a = rect_points rct ! 1;
          lower_point_b = rect_points rct ! 2
      in case get_switch_prev_state (es start_e) of
           Inl f \<Rightarrow> Inl f
         | Inr start_ps \<Rightarrow>
             (case map_at LETTER_TO_NAME start_ps of
                Inl f \<Rightarrow> Inl f
              | Inr name \<Rightarrow>
                  (let rtext = map toupper name;
                       base_x_1 = fst (rect_points rct ! 0);
                       base_x_2 = fst (rect_points rct ! 3);
                       base_y = snd (rect_points rct ! 1);
                       rectangle_end = (base_x_2 - base_x_1) sdiv 2;
                       text_centering = int (length rtext * FONT_SIZE div 3);
                       actual_x = base_x_1 + rectangle_end - text_centering;
                       final_point = (actual_x, base_y + 1)
                   in Inr \<lparr>start_entry = start_e, end_entry = end_e, rect = rct,
                         outline_up = \<lparr>line_color = outline_col,
                           line_a = upper_point_a, line_b = upper_point_b\<rparr>,
                         outline_down = \<lparr>line_color = outline_col,
                           line_a = lower_point_a, line_b = lower_point_b\<rparr>,
                         text_box = \<lparr>text_string = rtext, text_color = text_col,
                           text_pos = final_point\<rparr>,
                         raw_text = rtext\<rparr>)))"

text \<open>
  \<open>_make_nap_rect\<close>. \<open>graph\<close> gives the anchor point of a bin (\<open>graph[0]->bin(b)._val\<close>),
  \<open>bin0\<close> and \<open>bin1\<close> are the two bins, \<open>data0\<close> and \<open>data1\<close> the two records; the unused
  colour and size arguments are left out. The configuration and the colour table of the
  host, globals in the source, are parameters.
\<close>

definition make_nap_rect ::
  "NapConfig \<Rightarrow> (int \<rightharpoonup> Color) \<Rightarrow> entry_store \<Rightarrow> (int \<Rightarrow> point) \<Rightarrow> int \<Rightarrow> int
    \<Rightarrow> kshark_data_field_int64 \<Rightarrow> kshark_data_field_int64 \<Rightarrow> fault + NapRectangle" where
  "make_nap_rect cfg pid_color_table es graph bin0 bin1 data0 data1 =
     (let HEIGHT = 8;
          HEIGHT_OFFSET = - 10;
          start_base_point = graph bin0;
          end_base_point = graph bin1;
          point_0 = (fst start_base_point + 1, snd start_base_point - HEIGHT_OFFSET - HEIGHT);
          point_1 = (fst start_base_point + 1, snd start_base_point - HEIGHT_OFFSET);
          point_3 = (fst end_base_point - 1, snd end_base_point - HEIGHT_OFFSET - HEIGHT);
          point_2 = (fst end_base_point - 1, snd end_base_point - HEIGHT_OFFSET);
          switch_entry = entry data0;
          wakeup_entry = entry data1
      in case get_switch_prev_state (es switch_entry) of
           Inl f \<Rightarrow> Inl f
         | Inr prev_state \<Rightarrow>
             (case map_at PREV_STATE_TO_COLOR prev_state of
                Inl f \<Rightarrow> Inl f
              | Inr fill_col \<Rightarrow>
                  (let rct = \<lparr>rect_color = fill_col, rect_fill = True,
                         rect_points = [point_0, point_1, point_2, point_3]\<rparr>;
                       outline_col =
                         (if use_task_coloring cfg
                          then get_task_color pid_color_table (pid (es switch_entry))
                          else rect_color rct);
                       bg_intensity = get_color_intensity (rect_color rct);
                       text_col = black_or_white_text bg_intensity
                   in NapRectangle_new es switch_entry wakeup_entry rct outline_col text_col)))"

subsection \<open>Drawing (Naps.cpp)\<close>

text \<open>
  \<open>KsCppArgV\<close>, the arguments of a draw call: \<open>tot_count\<close> is \<open>_histo->tot_count\<close>, the
  number of entries in the visible bins, and \<open>graph_bin\<close> gives the anchor point of a bin
  of \<open>_graph\<close>. The visible window of the histogram is given by \<open>window_first\<close> and
  \<open>window_end\<close>: the records of the container, which are in trace order, that fall into
  the window are those at the positions \<open>window_first\<close>, ..., \<open>window_end - 1\<close>.
\<close>

record KsCppArgV =
  tot_count :: nat
  graph_bin :: "int \<Rightarrow> point"
  window_first :: nat
  window_end :: nat

text \<open>
  \<open>_draw_nap_rectangles\<close>. The interval plot of the host is the parameter \<open>plot\<close>; it gets
  the container twice, each time with one of the two lambdas, the shape maker, a colour
  and a size.
\<close>

definition draw_nap_rectangles_static ::
  "(KsCppArgV \<Rightarrow> kshark_data_container \<Rightarrow> (kshark_data_container \<Rightarrow> nat \<Rightarrow> bool)
      \<Rightarrow> kshark_data_container \<Rightarrow> (kshark_data_container \<Rightarrow> nat \<Rightarrow> bool)
      \<Rightarrow> ((int \<Rightarrow> point) \<Rightarrow> int \<Rightarrow> int \<Rightarrow> kshark_data_field_int64
            \<Rightarrow> kshark_data_field_int64 \<Rightarrow> fault + NapRectangle)
      \<Rightarrow> Color \<Rightarrow> int \<Rightarrow> 'r)
    \<Rightarrow> host_consts \<Rightarrow> NapConfig \<Rightarrow> (int \<rightharpoonup> Color) \<Rightarrow> KsCppArgV
    \<Rightarrow> kshark_data_container \<Rightarrow> plugin_naps_context \<Rightarrow> int \<Rightarrow> entry_store \<Rightarrow> 'r" where
  "draw_nap_rectangles_static plot K cfg pid_color_table argVCpp plugin_data ctx val es =
     plot argVCpp
       plugin_data (nap_rect_check_func_switch K ctx val es)
       plugin_data (nap_rect_check_func_waking K ctx val es)
       (make_nap_rect cfg pid_color_table es) (Color 0 0 0) (- 1)"

text \<open>
  \<open>draw_nap_rectangles\<close>. \<open>Returned\<close> is a return before \<open>_draw_nap_rectangles\<close> is
  called; \<open>ctx->collected_events\<close> with a null \<open>ctx\<close> is a fault. The limit of the
  configuration is an \<open>int32_t\<close> that the settings window keeps at 0 or above, and for
  such a limit the comparison of the source is the comparison of the two numbers,
  whether \<open>tot_count\<close> is declared signed or unsigned.
\<close>

datatype 'r draw_result = Returned | Crashed fault | Plotted 'r

definition draw_nap_rectangles ::
  "(KsCppArgV \<Rightarrow> kshark_data_container \<Rightarrow> (kshark_data_container \<Rightarrow> nat \<Rightarrow> bool)
      \<Rightarrow> kshark_data_container \<Rightarrow> (kshark_data_container \<Rightarrow> nat \<Rightarrow> bool)
      \<Rightarrow> ((int \<Rightarrow> point) \<Rightarrow> int \<Rightarrow> int \<Rightarrow> kshark_data_field_int64
            \<Rightarrow> kshark_data_field_int64 \<Rightarrow> fault + NapRectangle)
      \<Rightarrow> Color \<Rightarrow> int \<Rightarrow> 'r)
    \<Rightarrow> host_consts \<Rightarrow> NapConfig \<Rightarrow> (int \<rightharpoonup> Color) \<Rightarrow> plugin_state
    \<Rightarrow> KsCppArgV \<Rightarrow> int \<Rightarrow> int \<Rightarrow> int \<Rightarrow> 'r draw_result" where
  "draw_nap_rectangles plot K cfg pid_color_table st argVCpp sd val draw_action =
     (let ctx = get_context sd st;
          HISTO_ENTRIES_LIMIT = histo_entries_limit cfg;
          is_task_draw = (draw_action = KSHARK_TASK_DRAW K);
          is_too_many_bins = (HISTO_ENTRIES_LIMIT < int (tot_count argVCpp))
      in if \<not> is_task_draw \<or> is_too_many_bins then Returned
         else (case ctx of
                 None \<Rightarrow> Crashed Null_pointer
               | Some c \<Rightarrow>
                   (case collected_events c of
                      None \<Rightarrow> Returned
                    | Some plugin_data \<Rightarrow>
                        Plotted (draw_nap_rectangles_static plot K cfg pid_color_table argVCpp
                                   plugin_data c val (entries st)))))"

subsection \<open>The interval plot of the host\<close>

text \<open>
  Modelled from the spec: the interval-pairing scan, \<open>eventFieldIntervalPlot\<close> of
  KernelShark, which \<open>_draw_nap_rectangles\<close> calls and whose code is not among the
  sources of the plugin. Spec 4.2, step 4: "Using an interval-pairing scan over the
  Collector (ordered by trace time), find the first switch-candidate and, scanning
  forward strictly after it, the first waking-candidate; this forms one pair. The scan
  never re-uses either endpoint entry in a subsequent pair within the same render pass".

  \<open>find_naps\<close> walks the positions of the window in trace order; \<open>pend\<close> is the
  switch-candidate that waits for its waking, if there is one. After a pair the scan goes
  on behind the waking record. The result is the list of the emitted pairs (position of
  the switch record, position of the waking record).
\<close>

fun find_naps ::
  "(nat \<Rightarrow> bool) \<Rightarrow> (nat \<Rightarrow> bool) \<Rightarrow> nat option \<Rightarrow> nat list \<Rightarrow> (nat \<times> nat) list" where
  "find_naps sw wk pend [] = []"
| "find_naps sw wk None (i # is) =
     (if sw i then find_naps sw wk (Some i) is else find_naps sw wk None is)"
| "find_naps sw wk (Some a) (i # is) =
     (if wk i then (a, i) # find_naps sw wk None is else find_naps sw wk (Some a) is)"

text \<open>
  Modelled from the spec: the visible window ("the set of histogram bins currently
  rendered, ..., bounding the Matcher's scan range per frame") as the positions of the
  container the scan visits, and \<open>eventFieldIntervalPlot\<close> as the scan over them; of
  the emitted intervals only the pairs are kept, the shapes that \<open>makeShape\<close> builds from
  them are not part of the result.
\<close>

definition visible_window :: "KsCppArgV \<Rightarrow> kshark_data_container \<Rightarrow> nat list" where
  "visible_window argVCpp data_c =
     [window_first argVCpp ..< min (window_end argVCpp) (length data_c)]"

definition eventFieldIntervalPlot ::
  "KsCppArgV \<Rightarrow> kshark_data_container \<Rightarrow> (kshark_data_container \<Rightarrow> nat \<Rightarrow> bool)
    \<Rightarrow> kshark_data_container \<Rightarrow> (kshark_data_container \<Rightarrow> nat \<Rightarrow> bool)
    \<Rightarrow> ((int \<Rightarrow> point) \<Rightarrow> int \<Rightarrow> int \<Rightarrow> kshark_data_field_int64
          \<Rightarrow> kshark_data_field_int64 \<Rightarrow> fault + NapRectangle)
    \<Rightarrow> Color \<Rightarrow> int \<Rightarrow> (nat \<times> nat) list" where
  "eventFieldIntervalPlot argvCpp dataEvtA checkFieldA dataEvtB checkFieldB makeShape col sz =
     find_naps (checkFieldA dataEvtA) (checkFieldB dataEvtB) None
       (visible_window argvCpp dataEvtA)"

text \<open>The positions that occur as an endpoint of some pair, with repetitions.\<close>

fun endpoints :: "(nat \<times> nat) list \<Rightarrow> nat list" where
  "endpoints [] = []"
| "endpoints ((a, b) # ps) = a # b # endpoints ps"

subsection \<open>Initialisation (naps.c)\<close>

text \<open>
  What the host answers while a stream is initialised: the font lookup, whether
  \<open>__init\<close> can create the context, whether the stream is a tep stream, the tep handle,
  the event that \<open>define_wakeup_event\<close> finds (\<open>None\<close> when it returns false), the
  field lookup, the new container, and the lookup of event ids by name, which gives a
  negative number for a name it cannot resolve.
\<close>

record init_host =
  ksplot_find_font_file :: "string \<Rightarrow> string \<Rightarrow> string option"
  context_alloc :: bool
  kshark_is_tep :: bool
  kshark_get_tep :: "handle option"
  define_wakeup_event :: "handle option"
  tep_find_any_field :: "string \<Rightarrow> handle option"
  kshark_init_data_container :: "kshark_data_container option"
  kshark_find_event_id :: "string \<Rightarrow> int"

text \<open>
  Modelled from the spec: the methods \<open>__init\<close> and \<open>__close\<close> that the macro
  \<open>KS_DEFINE_PLUGIN_CONTEXT\<close> of the host generates (the context is "created on stream
  load, destroyed on stream unload"). \<open>__init\<close> puts a zeroed context into the table,
  unless it cannot allocate; \<open>__close\<close> frees the context of the stream, through
  \<open>_nr_free_ctx\<close>, and takes it out of the table.
\<close>

definition calloc_context :: plugin_naps_context where
  "calloc_context = \<lparr>collected_events = None, sswitch_event_id = 0, waking_event_id = 0,
     tep = None, tep_waking = None, sched_waking_pid_field = None\<rparr>"

definition init_context ::
  "bool \<Rightarrow> int \<Rightarrow> plugin_state \<Rightarrow> plugin_naps_context option \<times> plugin_state" where
  "init_context alloc sd st =
     (if alloc
      then (Some calloc_context,
            st\<lparr>context_handler := (context_handler st)(sd \<mapsto> calloc_context)\<rparr>)
      else (None, st))"

definition close_context :: "int \<Rightarrow> plugin_state \<Rightarrow> plugin_state" where
  "close_context sd st = st\<lparr>context_handler := (context_handler st)(sd := None)\<rparr>"

text \<open>
  Modelled from the spec: the registration functions of the host ("register/unregister
  the above callbacks"); a registered handler is put in front of the list of the stream,
  under the event id it is registered for.
\<close>

definition kshark_register_event_handler ::
  "kshark_data_stream \<Rightarrow> int \<Rightarrow> handler \<Rightarrow> kshark_data_stream" where
  "kshark_register_event_handler stream ev h =
     stream\<lparr>event_handlers := (ev, h) # event_handlers stream\<rparr>"

definition kshark_register_draw_handler ::
  "kshark_data_stream \<Rightarrow> handler \<Rightarrow> kshark_data_stream" where
  "kshark_register_draw_handler stream h =
     stream\<lparr>draw_handlers := h # draw_handlers stream\<rparr>"

text \<open>
  \<open>KSHARK_PLOT_PLUGIN_INITIALIZER\<close>, in the build with couplebreak. The result is the
  returned number, the stream with its handlers, and the state.
\<close>

definition KSHARK_PLOT_PLUGIN_INITIALIZER ::
  "host_consts \<Rightarrow> init_host \<Rightarrow> kshark_data_stream \<Rightarrow> plugin_state
    \<Rightarrow> int \<times> kshark_data_stream \<times> plugin_state" where
  "KSHARK_PLOT_PLUGIN_INITIALIZER K H stream st =
     (let st1 = (if font_file st = None \<or> bold_font_path st = None
                 then st\<lparr>font_file := ksplot_find_font_file H ''FreeSans'' ''FreeSans'',
                         bold_font_path := ksplot_find_font_file H ''FreeSans'' ''FreeSansBold''\<rparr>
                 else st)
      in if font_file st1 = None \<or> bold_font_path st1 = None then (0, stream, st1)
         else (case init_context (context_alloc H) (stream_id stream) st1 of
                 (None, st2) \<Rightarrow> (0, stream, close_context (stream_id stream) st2)
               | (Some nr_ctx, st2) \<Rightarrow>
                   if \<not> kshark_is_tep H
                   then (0, stream, close_context (stream_id stream) st2)
                   else
                     (let ctx1 = nr_ctx\<lparr>tep := kshark_get_tep H\<rparr>;
                          ctx2 = ctx1\<lparr>tep_waking := define_wakeup_event H\<rparr>;
                          waking_found = (define_wakeup_event H \<noteq> None);
                          ctx3 = (if waking_found
                                  then ctx2\<lparr>sched_waking_pid_field :=
                                         tep_find_any_field H ''pid''\<rparr>
                                  else ctx2);
                          ctx4 = ctx3\<lparr>collected_events := kshark_init_data_container H\<rparr>;
                          ctx5 = ctx4\<lparr>sswitch_event_id :=
                                   kshark_find_event_id H ''sched/sched_switch''\<rparr>;
                          swaking_id = kshark_find_event_id H ''sched/sched_waking'';
                          ctx6 = ctx5\<lparr>waking_event_id :=
                                   (if couplebreak_on stream then COUPLEBREAK_SWT_ID K
                                    else swaking_id)\<rparr>;
                          stream1 = kshark_register_event_handler stream
                                      (sswitch_event_id ctx6) Select_events;
                          stream2 = kshark_register_event_handler stream1
                                      (waking_event_id ctx6) Select_events;
                          stream3 = kshark_register_draw_handler stream2 Draw_nap_rectangles
                      in (1, stream3,
                          st2\<lparr>context_handler :=
                                (context_handler st2)(stream_id stream \<mapsto> ctx6)\<rparr>))))"

subsection \<open>Auxiliary functions for the analysis of the intensity\<close>

text \<open>
  The rounding of a number whose binary exponent \<open>e\<close> is known, and the rounding
  as \<open>f32_round\<close> defines it for a number that is not 0.
\<close>

definition f32_round_at :: "int \<Rightarrow> rat \<Rightarrow> rat" where
  "f32_round_at e x = of_int (round_half_even (x / 2 powi (e - 23))) * 2 powi (e - 23)"

definition f32_round_slow :: "rat \<Rightarrow> rat" where
  "f32_round_slow x =
     (let e = bitlen \<lfloor>\<bar>x\<bar> * 2 ^ 149\<rfloor> - 150;
          q = 2 powi (max e (- 126) - 23)
      in of_int (round_half_even (x / q)) * q)"

text \<open>
  \<open>_get_color_intensity\<close> on the three components as integers, with the three
  constants \<open>0.114f\<close>, \<open>0.587f\<close> and \<open>0.299f\<close> written as the fractions they are.
\<close>

definition intensity_rgb :: "int \<Rightarrow> int \<Rightarrow> int \<Rightarrow> rat" where
  "intensity_rgb r g b =
     f32_round (f32_round (f32_round (of_int b * (15300821 / 134217728))
                         + f32_round (of_int g * (4924113 / 8388608)))
               + f32_round (of_int r * (10032775 / 33554432)))"

text \<open>
  The colours whose luminance is exactly 128 are those with
  \<open>299 r + 587 g + 114 b = 128000\<close>; for such a colour \<open>g\<close> is congruent to
  \<open>47 (128000 - 299 r)\<close> modulo 114. \<open>boundary_check r g\<close> says that the colour with
  these two components, if there is one, has an intensity of at most 128, and
  \<open>boundary_ok r\<close> says so for the three candidates for \<open>g\<close>.
\<close>

definition boundary_check :: "int \<Rightarrow> int \<Rightarrow> bool" where
  "boundary_check r g =
     (if g \<le> 255 \<and> 0 \<le> 128000 - 299 * r - 587 * g
          \<and> (128000 - 299 * r - 587 * g) mod 114 = 0
          \<and> (128000 - 299 * r - 587 * g) div 114 \<le> 255
      then intensity_rgb r g ((128000 - 299 * r - 587 * g) div 114) \<le> 128
      else True)"

definition boundary_ok :: "int \<Rightarrow> bool" where
  "boundary_ok r =
     (boundary_check r ((47 * (128000 - 299 * r)) mod 114)
      \<and> boundary_check r ((47 * (128000 - 299 * r)) mod 114 + 114)
      \<and> boundary_check r ((47 * (128000 - 299 * r)) mod 114 + 228))"

subsection \<open>Concrete inputs\<close>

text \<open>
  The masks as \<open>libkshark.h\<close> has them, the task-draw action of \<open>libkshark-plugin.h\<close>,
  and a negative id for the couplebreak waking event.
\<close>

definition ex_consts :: host_consts where
  "ex_consts = \<lparr>KS_EVENT_VIEW_FILTER_MASK = 4, KS_GRAPH_VIEW_FILTER_MASK = 2,
     KS_PLUGIN_UNTOUCHED_MASK = 128, KSHARK_TASK_DRAW = 2, COUPLEBREAK_SWT_ID = - 2\<rparr>"

definition ex_stream :: kshark_data_stream where
  "ex_stream = \<lparr>stream_id = 0, couplebreak_on = False, event_handlers = [],
     draw_handlers = []\<rparr>"

text \<open>A context with switch id 316 and waking id 320.\<close>

definition ex_ctx :: "kshark_data_container option \<Rightarrow> plugin_naps_context" where
  "ex_ctx c = \<lparr>collected_events = c, sswitch_event_id = 316, waking_event_id = 320,
     tep = Some 1, tep_waking = Some 2, sched_waking_pid_field = Some 3\<rparr>"

text \<open>The entries at 10 and 12 are switches of task 5, the entry at 11 is a waking owned by task 7.\<close>

definition ex_entries :: entry_store where
  "ex_entries p =
     (if p = 11 then \<lparr>visible = 255, event_id = 320, pid = 7, info = ''comm=a pid=5 prio=120''\<rparr>
      else \<lparr>visible = 255, event_id = 316, pid = 5,
             info = ''a:5 [120] S ==> b:7 [120]''\<rparr>)"

definition ex_state :: "plugin_naps_context option \<Rightarrow> plugin_state" where
  "ex_state c = \<lparr>context_handler = (\<lambda>sd. if sd = 0 then c else None),
     entries = ex_entries, font_file = None, bold_font_path = None\<rparr>"

text \<open>
  The round trip of the spec: the three entries are classified in trace order on a
  stream without couplebreak; the pid field of the waking record reads 5.
\<close>

definition ex_loaded :: plugin_state where
  "ex_loaded =
     select_events ex_consts ex_stream None 12
       (select_events ex_consts ex_stream (Some 5) 11
         (select_events ex_consts ex_stream None 10 (ex_state (Some (ex_ctx (Some []))))))"

definition ex_data :: kshark_data_container where
  "ex_data = [\<lparr>entry = 10, field = - 1\<rparr>, \<lparr>entry = 11, field = 5\<rparr>, \<lparr>entry = 12, field = - 1\<rparr>]"

definition ex_loaded_entries :: entry_store where
  "ex_loaded_entries = ex_entries
     (11 := \<lparr>visible = 127, event_id = 320, pid = 5, info = ''comm=a pid=5 prio=120''\<rparr>)"

definition ex_argv :: KsCppArgV where
  "ex_argv = \<lparr>tot_count = 3, graph_bin = (\<lambda>b. (10 * b, 50)), window_first = 0,
     window_end = 3\<rparr>"

definition ex_cfg :: NapConfig where
  "ex_cfg = \<lparr>histo_entries_limit = 10000, use_task_coloring = False\<rparr>"

text \<open>The same waking on a stream with couplebreak: the entry is owned by task 5.\<close>

definition ex_stream_cb :: kshark_data_stream where
  "ex_stream_cb = \<lparr>stream_id = 0, couplebreak_on = True, event_handlers = [],
     draw_handlers = []\<rparr>"

definition ex_ctx_cb :: "kshark_data_container option \<Rightarrow> plugin_naps_context" where
  "ex_ctx_cb c = \<lparr>collected_events = c, sswitch_event_id = 316,
     waking_event_id = COUPLEBREAK_SWT_ID ex_consts,
     tep = Some 1, tep_waking = Some 2, sched_waking_pid_field = Some 3\<rparr>"

definition ex_entries_cb :: entry_store where
  "ex_entries_cb = ex_entries
     (11 := \<lparr>visible = 255, event_id = - 2, pid = 5, info = ''comm=a pid=5 prio=120''\<rparr>)"

text \<open>
  A host that finds the fonts, creates the context and has a tep stream without any
  wakeup event; every event name gets the same id.
\<close>

definition ex_host :: "int \<Rightarrow> init_host" where
  "ex_host unresolved = \<lparr>ksplot_find_font_file = (\<lambda>family name. Some name),
     context_alloc = True, kshark_is_tep = True, kshark_get_tep = Some 1,
     define_wakeup_event = None, tep_find_any_field = (\<lambda>name. None),
     kshark_init_data_container = Some [],
     kshark_find_event_id = (\<lambda>name. unresolved)\<rparr>"

text \<open>A switch entry whose info string lacks the marker.\<close>

definition ex_malformed :: entry_store where
  "ex_malformed = ex_entries
     (10 := \<lparr>visible = 255, event_id = 316, pid = 5, info = ''a:5 [120] S b:7 [120]''\<rparr>)"

section \<open>Properties\<close>

subsection \<open>Classification without a context or without a container\<close>

text \<open>
  C10: when no context is registered for the stream, or the context holds a null
  container, \<open>_select_events\<close> returns with the state as it was: no record is appended
  to any container and no entry is changed.
\<close>

theorem select_events_no_context:
  "get_context (stream_id stream) st = None
     \<or> (\<exists>nr_ctx. get_context (stream_id stream) st = Some nr_ctx
            \<and> collected_events nr_ctx = None)
   \<Longrightarrow> select_events K stream rec e st = st"
  by (auto simp: select_events_def)

theorem select_events_no_context_witness:
  "(get_context (stream_id ex_stream) (ex_state (Some (ex_ctx None))) = None
      \<or> (\<exists>nr_ctx. get_context (stream_id ex_stream) (ex_state (Some (ex_ctx None))) = Some nr_ctx
            \<and> collected_events nr_ctx = None))
   \<and> select_events ex_consts ex_stream (Some 5) 11 (ex_state (Some (ex_ctx None)))
       = ex_state (Some (ex_ctx None))"
proof -
  have h: "get_context (stream_id ex_stream) (ex_state (Some (ex_ctx None))) = None
      \<or> (\<exists>nr_ctx. get_context (stream_id ex_stream) (ex_state (Some (ex_ctx None))) = Some nr_ctx
            \<and> collected_events nr_ctx = None)"
    by (simp add: get_context_def ex_stream_def ex_state_def ex_ctx_def)
  from h select_events_no_context [OF h] show ?thesis by simp
qed

subsection \<open>A waking record whose pid field cannot be read\<close>

lemma sentinel_never_waking:
  "0 \<le> val \<Longrightarrow> field (data_c ! i) = - 1
     \<Longrightarrow> \<not> nap_rect_check_func_waking K ctx val es data_c i"
  by (simp add: nap_rect_check_func_waking_def Let_def)

text \<open>
  C4: when reading the \<open>pid\<close> field of a waking record fails,
  \<open>waking_evt_tep_processing\<close> still appends the record to the container, with the
  field \<open>-1\<close>, and leaves every entry as it was; so does \<open>_select_events\<close> for a
  waking entry on a stream without couplebreak. For a target id that is not negative, a
  record whose field is \<open>-1\<close> (the appended one among them) does not satisfy the
  waking predicate of the renderer.
\<close>

theorem waking_read_failure_sentinel:
  assumes fail: "tep_read_number_field (sched_waking_pid_field ctx) rec = None"
    and cont: "collected_events ctx = Some c"
    and val: "0 \<le> val"
  shows "waking_evt_tep_processing K ctx rec e es =
           (ctx\<lparr>collected_events := Some (c @ [\<lparr>entry = e, field = - 1\<rparr>])\<rparr>, es)
       \<and> (get_context (stream_id stream) st = Some ctx
            \<and> event_id (entries st e) = waking_event_id ctx
            \<and> event_id (entries st e) \<noteq> sswitch_event_id ctx
            \<and> \<not> couplebreak_on stream
          \<longrightarrow> select_events K stream rec e st =
                st\<lparr>context_handler := (context_handler st)(stream_id stream \<mapsto>
                      ctx\<lparr>collected_events := Some (c @ [\<lparr>entry = e, field = - 1\<rparr>])\<rparr>)\<rparr>)
       \<and> \<not> nap_rect_check_func_waking K ctx2 val es2 (c @ [\<lparr>entry = e, field = - 1\<rparr>]) (length c)
       \<and> (field (data_c ! i) = - 1 \<longrightarrow> \<not> nap_rect_check_func_waking K ctx2 val es2 data_c i)"
proof -
  have w: "waking_evt_tep_processing K ctx rec e es =
           (ctx\<lparr>collected_events := Some (c @ [\<lparr>entry = e, field = - 1\<rparr>])\<rparr>, es)" for es
    using fail cont
    by (simp add: waking_evt_tep_processing_def kshark_data_container_append_def)
  have s: "select_events K stream rec e st =
                st\<lparr>context_handler := (context_handler st)(stream_id stream \<mapsto>
                      ctx\<lparr>collected_events := Some (c @ [\<lparr>entry = e, field = - 1\<rparr>])\<rparr>)\<rparr>"
    if "get_context (stream_id stream) st = Some ctx"
      and "event_id (entries st e) = waking_event_id ctx"
      and "event_id (entries st e) \<noteq> sswitch_event_id ctx"
      and "\<not> couplebreak_on stream"
    using that cont by (simp add: select_events_def w)
  from val have p: "\<not> nap_rect_check_func_waking K ctx2 val es2
      (c @ [\<lparr>entry = e, field = - 1\<rparr>]) (length c)"
    by (simp add: sentinel_never_waking)
  from val have g: "field (data_c ! i) = - 1
      \<longrightarrow> \<not> nap_rect_check_func_waking K ctx2 val es2 data_c i"
    by (simp add: sentinel_never_waking)
  from w s p g show ?thesis by blast
qed

theorem waking_read_failure_sentinel_witness:
  "tep_read_number_field (sched_waking_pid_field (ex_ctx (Some []))) None = None
   \<and> collected_events (ex_ctx (Some [])) = Some []
   \<and> (0::int) \<le> 5
   \<and> waking_evt_tep_processing ex_consts (ex_ctx (Some [])) None 11 ex_entries =
        (ex_ctx (Some [\<lparr>entry = 11, field = - 1\<rparr>]), ex_entries)
   \<and> select_events ex_consts ex_stream None 11 (ex_state (Some (ex_ctx (Some [])))) =
        ex_state (Some (ex_ctx (Some [\<lparr>entry = 11, field = - 1\<rparr>])))
   \<and> \<not> nap_rect_check_func_waking ex_consts (ex_ctx (Some [\<lparr>entry = 11, field = - 1\<rparr>])) 5
         ex_entries [\<lparr>entry = 11, field = - 1\<rparr>] 0"
proof -
  have h1: "tep_read_number_field (sched_waking_pid_field (ex_ctx (Some []))) None = None"
    by (simp add: tep_read_number_field_def ex_ctx_def)
  have h2: "collected_events (ex_ctx (Some [])) = Some []"
    by (simp add: ex_ctx_def)
  have h3: "(0::int) \<le> 5" by simp
  have h4: "get_context (stream_id ex_stream) (ex_state (Some (ex_ctx (Some []))))
        = Some (ex_ctx (Some []))
      \<and> event_id (entries (ex_state (Some (ex_ctx (Some [])))) 11)
          = waking_event_id (ex_ctx (Some []))
      \<and> event_id (entries (ex_state (Some (ex_ctx (Some [])))) 11)
          \<noteq> sswitch_event_id (ex_ctx (Some []))
      \<and> \<not> couplebreak_on ex_stream"
    by (simp add: get_context_def ex_stream_def ex_state_def ex_ctx_def ex_entries_def)
  have u: "\<And>c c2. (ex_ctx c)\<lparr>collected_events := c2\<rparr> = ex_ctx c2"
    by (simp add: ex_ctx_def)
  have v: "(ex_state (Some (ex_ctx (Some []))))\<lparr>context_handler :=
       (context_handler (ex_state (Some (ex_ctx (Some [])))))(stream_id ex_stream \<mapsto>
          ex_ctx (Some [\<lparr>entry = 11, field = - 1\<rparr>]))\<rparr>
      = ex_state (Some (ex_ctx (Some [\<lparr>entry = 11, field = - 1\<rparr>])))"
    by (simp add: ex_state_def ex_stream_def fun_eq_iff)
  from waking_read_failure_sentinel [OF h1 h2 h3, where K = ex_consts and e = 11
      and es = ex_entries and stream = ex_stream
      and st = "ex_state (Some (ex_ctx (Some [])))"
      and ?ctx2.0 = "ex_ctx (Some [\<lparr>entry = 11, field = - 1\<rparr>])" and ?es2.0 = ex_entries
      and data_c = "[]" and i = 0] h1 h2 h4
  show ?thesis by (simp add: u v)
qed

subsection \<open>The pairing scan\<close>

lemma find_naps_length_wk:
  "length (find_naps sw wk pend is) \<le> length (filter wk is)"
  by (induction sw wk pend "is" rule: find_naps.induct) auto

lemma find_naps_length_sw:
  "length (find_naps sw wk pend is)
     \<le> length (filter sw is) + (case pend of None \<Rightarrow> 0 | Some _ \<Rightarrow> 1)"
  by (induction sw wk pend "is" rule: find_naps.induct) auto

lemma find_naps_endpoints_subset:
  "set (endpoints (find_naps sw wk pend is)) \<subseteq> set is \<union> set_option pend"
  by (induction sw wk pend "is" rule: find_naps.induct) auto

lemma find_naps_endpoints_distinct:
  "distinct is \<Longrightarrow> (\<And>a. pend = Some a \<Longrightarrow> a \<notin> set is)
     \<Longrightarrow> distinct (endpoints (find_naps sw wk pend is))"
proof (induction sw wk pend "is" rule: find_naps.induct)
  case (1 sw wk pend)
  then show ?case by simp
next
  case (2 sw wk i "is")
  then show ?case by auto
next
  case (3 sw wk a i "is")
  show ?case
  proof (cases "wk i")
    case True
    from "3.prems" have "distinct is" by simp
    with True "3.IH"(1) have d: "distinct (endpoints (find_naps sw wk None is))" by simp
    have sub: "set (endpoints (find_naps sw wk None is)) \<subseteq> set is"
      using find_naps_endpoints_subset [of sw wk None "is"] by simp
    from "3.prems" have "a \<noteq> i" "a \<notin> set is" "i \<notin> set is" by auto
    with d sub True show ?thesis by auto
  next
    case False
    from "3.prems" have "distinct is" "a \<notin> set is" by auto
    with False "3.IH"(2) show ?thesis by simp
  qed
qed

lemma find_naps_checked:
  "(a, b) \<in> set (find_naps sw wk pend is)
     \<Longrightarrow> wk b \<and> b \<in> set is \<and> (pend = Some a \<or> (sw a \<and> a \<in> set is))"
  by (induction sw wk pend "is" rule: find_naps.induct) (auto split: if_splits)

lemma distinct_map_nth:
  "distinct xs \<Longrightarrow> distinct l \<Longrightarrow> set xs \<subseteq> {..<length l} \<Longrightarrow> distinct (map ((!) l) xs)"
proof -
  assume xs: "distinct xs" and l: "distinct l" and sub: "set xs \<subseteq> {..<length l}"
  have "inj_on ((!) l) (set xs)"
  proof (rule inj_onI)
    fix x y assume "x \<in> set xs" "y \<in> set xs" "l ! x = l ! y"
    with sub have "x < length l" "y < length l" by auto
    with l \<open>l ! x = l ! y\<close> show "x = y" by (simp add: nth_eq_iff_index_eq)
  qed
  with xs show ?thesis by (simp add: distinct_map)
qed

lemma endpoints_map:
  "map f (endpoints ps) = concat (map (\<lambda>(a, b). [f a, f b]) ps)"
  by (induction ps rule: endpoints.induct) auto


text \<open>
  The concrete trace: classification gives the three records of \<open>ex_data\<close> and moves
  the waking entry to task 5.
\<close>

lemma ex_loaded_eq:
  "ex_loaded = ex_state (Some (ex_ctx (Some ex_data)))\<lparr>entries := ex_loaded_entries\<rparr>"
  by (simp add: ex_loaded_def select_events_def get_context_def ex_state_def ex_ctx_def
      ex_stream_def ex_entries_def kshark_data_container_append_def ex_data_def
      waking_evt_tep_processing_def tep_read_number_field_def ex_consts_def
      ex_loaded_entries_def fun_eq_iff)

lemma ex_facts:
  "get_context 0 ex_loaded = Some (ex_ctx (Some ex_data))"
  "entries ex_loaded = ex_loaded_entries"
  "collected_events (ex_ctx c) = c"
  "histo_entries_limit ex_cfg = 10000"
  "tot_count ex_argv = 3"
  "KSHARK_TASK_DRAW ex_consts = 2"
  by (simp_all add: ex_loaded_eq get_context_def ex_state_def ex_ctx_def ex_cfg_def
      ex_argv_def ex_consts_def)

lemma ex_window: "visible_window ex_argv ex_data = [0, Suc 0, 2]"
  by (simp add: visible_window_def ex_argv_def ex_data_def upt_rec)

lemma ex_switch_checks:
  "nap_rect_check_func_switch ex_consts (ex_ctx c) 5 ex_loaded_entries ex_data 0"
  "\<not> nap_rect_check_func_switch ex_consts (ex_ctx c) 5 ex_loaded_entries ex_data (Suc 0)"
  "nap_rect_check_func_switch ex_consts (ex_ctx c) 5 ex_loaded_entries ex_data 2"
  by (simp_all add: nap_rect_check_func_switch_def nap_rect_check_function_general_def
      ex_ctx_def ex_consts_def ex_loaded_entries_def ex_entries_def ex_data_def)

lemma ex_waking_checks:
  "\<not> nap_rect_check_func_waking ex_consts (ex_ctx c) 5 ex_loaded_entries ex_data 0"
  "nap_rect_check_func_waking ex_consts (ex_ctx c) 5 ex_loaded_entries ex_data (Suc 0)"
  "\<not> nap_rect_check_func_waking ex_consts (ex_ctx c) 5 ex_loaded_entries ex_data 2"
  by (simp_all add: nap_rect_check_func_waking_def nap_rect_check_function_general_def
      ex_ctx_def ex_consts_def ex_loaded_entries_def ex_entries_def ex_data_def)

lemma ex_pairs:
  "draw_nap_rectangles_static eventFieldIntervalPlot ex_consts ex_cfg Map.empty ex_argv ex_data
     (ex_ctx c) 5 ex_loaded_entries = [(0, Suc 0)]"
  by (simp add: draw_nap_rectangles_static_def eventFieldIntervalPlot_def ex_window
      ex_switch_checks ex_waking_checks)

text \<open>
  C1: in a render pass, the scan that \<open>_draw_nap_rectangles\<close> invokes emits at most
  \<open>min N M\<close> intervals, where \<open>N\<close> is the number of switch-candidates and \<open>M\<close> the
  number of waking-candidates in the visible window; no position of the container is an
  endpoint of two emitted intervals (or both endpoints of one), and when the records of
  the container point to different entries, no entry is.
\<close>

theorem at_most_one_pairing:
  fixes K cfg tbl argv plugin_data ctx val es
  defines "ivs \<equiv> draw_nap_rectangles_static eventFieldIntervalPlot K cfg tbl argv
                    plugin_data ctx val es"
    and "win \<equiv> visible_window argv plugin_data"
  shows "length ivs
           \<le> min (length (filter (nap_rect_check_func_switch K ctx val es plugin_data) win))
                 (length (filter (nap_rect_check_func_waking K ctx val es plugin_data) win))
       \<and> distinct (endpoints ivs)
       \<and> (distinct (map entry plugin_data)
            \<longrightarrow> distinct (map (\<lambda>i. entry (plugin_data ! i)) (endpoints ivs)))"
proof -
  let ?sw = "nap_rect_check_func_switch K ctx val es plugin_data"
  let ?wk = "nap_rect_check_func_waking K ctx val es plugin_data"
  have ivs: "ivs = find_naps ?sw ?wk None win"
    by (simp add: ivs_def win_def draw_nap_rectangles_static_def eventFieldIntervalPlot_def)
  have dw: "distinct win" by (simp add: win_def visible_window_def)
  have len: "length ivs \<le> min (length (filter ?sw win)) (length (filter ?wk win))"
    using find_naps_length_sw [of ?sw ?wk None win] find_naps_length_wk [of ?sw ?wk None win]
    by (simp add: ivs)
  have de: "distinct (endpoints ivs)"
    unfolding ivs using dw by (rule find_naps_endpoints_distinct) simp
  have sub: "set (endpoints ivs) \<subseteq> {..<length plugin_data}"
    using find_naps_endpoints_subset [of ?sw ?wk None win]
    by (auto simp: ivs win_def visible_window_def)
  have "distinct (map (\<lambda>i. entry (plugin_data ! i)) (endpoints ivs))"
    if d: "distinct (map entry plugin_data)"
  proof -
    have "set (endpoints ivs) \<subseteq> {..<length (map entry plugin_data)}"
      using sub by simp
    with de d have "distinct (map ((!) (map entry plugin_data)) (endpoints ivs))"
      by (rule distinct_map_nth)
    moreover have "map ((!) (map entry plugin_data)) (endpoints ivs)
        = map (\<lambda>i. entry (plugin_data ! i)) (endpoints ivs)"
      using sub by (auto simp: subset_iff)
    ultimately show ?thesis by simp
  qed
  with len de show ?thesis by blast
qed

theorem at_most_one_pairing_witness:
  "length (draw_nap_rectangles_static eventFieldIntervalPlot ex_consts ex_cfg Map.empty ex_argv
       ex_data (ex_ctx (Some ex_data)) 5 ex_loaded_entries) = 1
   \<and> length (filter (nap_rect_check_func_switch ex_consts (ex_ctx (Some ex_data)) 5
          ex_loaded_entries ex_data) (visible_window ex_argv ex_data)) = 2
   \<and> length (filter (nap_rect_check_func_waking ex_consts (ex_ctx (Some ex_data)) 5
          ex_loaded_entries ex_data) (visible_window ex_argv ex_data)) = 1
   \<and> distinct (map entry ex_data)
   \<and> distinct (map (\<lambda>i. entry (ex_data ! i))
        (endpoints (draw_nap_rectangles_static eventFieldIntervalPlot ex_consts ex_cfg Map.empty
           ex_argv ex_data (ex_ctx (Some ex_data)) 5 ex_loaded_entries)))"
proof -
  have d: "distinct (map entry ex_data)" by (simp add: ex_data_def)
  from at_most_one_pairing [of ex_consts ex_cfg Map.empty ex_argv ex_data
      "ex_ctx (Some ex_data)" 5 ex_loaded_entries] d
  show ?thesis by (simp add: ex_pairs ex_window ex_switch_checks ex_waking_checks)
qed

text \<open>
  C5: for every emitted interval, the field of the waking record is the target id
  \<open>val\<close> and the task id of the switch entry is the same \<open>val\<close>; the two entries are
  a waking and a switch event.
\<close>

theorem key_correctness:
  assumes "(a, b) \<in> set (draw_nap_rectangles_static eventFieldIntervalPlot K cfg tbl argv
                          plugin_data ctx val es)"
  shows "field (plugin_data ! b) = val
       \<and> pid (es (entry (plugin_data ! a))) = val
       \<and> event_id (es (entry (plugin_data ! b))) = waking_event_id ctx
       \<and> event_id (es (entry (plugin_data ! a))) = sswitch_event_id ctx"
proof -
  from assms have "(a, b) \<in> set (find_naps (nap_rect_check_func_switch K ctx val es plugin_data)
      (nap_rect_check_func_waking K ctx val es plugin_data) None
      (visible_window argv plugin_data))"
    by (simp add: draw_nap_rectangles_static_def eventFieldIntervalPlot_def)
  from find_naps_checked [OF this]
  have "nap_rect_check_func_waking K ctx val es plugin_data b"
    and "nap_rect_check_func_switch K ctx val es plugin_data a" by simp_all
  then show ?thesis
    by (simp add: nap_rect_check_func_waking_def nap_rect_check_func_switch_def Let_def)
qed

theorem key_correctness_witness:
  "(0, Suc 0) \<in> set (draw_nap_rectangles_static eventFieldIntervalPlot ex_consts ex_cfg
       Map.empty ex_argv ex_data (ex_ctx (Some ex_data)) 5 ex_loaded_entries)
   \<and> field (ex_data ! Suc 0) = 5
   \<and> pid (ex_loaded_entries (entry (ex_data ! 0))) = 5"
proof -
  have h: "(0, Suc 0) \<in> set (draw_nap_rectangles_static eventFieldIntervalPlot ex_consts ex_cfg
       Map.empty ex_argv ex_data (ex_ctx (Some ex_data)) 5 ex_loaded_entries)"
    by (simp add: ex_pairs)
  from h key_correctness [OF h] show ?thesis by simp
qed

subsection \<open>The gate of the draw callback\<close>

text \<open>
  C3: when the draw action is not the task-draw action, or the number of entries in
  the visible bins exceeds the limit of the configuration, \<open>draw_nap_rectangles\<close>
  returns before the interval plot is called, whatever the interval plot is and whatever
  the container holds: nothing is matched and nothing is emitted.
\<close>

theorem draw_gate:
  assumes "0 \<le> histo_entries_limit cfg"
    and "draw_action \<noteq> KSHARK_TASK_DRAW K \<or> histo_entries_limit cfg < int (tot_count argv_c)"
  shows "draw_nap_rectangles plot K cfg tbl st argv_c sd val draw_action = Returned"
  using assms by (auto simp: draw_nap_rectangles_def)


theorem draw_gate_witness:
  "0 \<le> histo_entries_limit ex_cfg
   \<and> histo_entries_limit ex_cfg < int (tot_count (ex_argv\<lparr>tot_count := 10001\<rparr>))
   \<and> draw_nap_rectangles eventFieldIntervalPlot ex_consts ex_cfg Map.empty ex_loaded
         (ex_argv\<lparr>tot_count := 10001\<rparr>) 0 5 2 = Returned
   \<and> draw_nap_rectangles eventFieldIntervalPlot ex_consts ex_cfg Map.empty ex_loaded
         ex_argv 0 5 2 = Plotted [(0, Suc 0)]"
proof -
  have h1: "0 \<le> histo_entries_limit ex_cfg" by (simp add: ex_cfg_def)
  have h: "histo_entries_limit ex_cfg < int (tot_count (ex_argv\<lparr>tot_count := 10001\<rparr>))"
    by (simp add: ex_cfg_def)
  then have h2: "2 \<noteq> KSHARK_TASK_DRAW ex_consts
        \<or> histo_entries_limit ex_cfg < int (tot_count (ex_argv\<lparr>tot_count := 10001\<rparr>))"
    by simp
  have p: "draw_nap_rectangles eventFieldIntervalPlot ex_consts ex_cfg Map.empty ex_loaded
         ex_argv 0 5 2 = Plotted [(0, Suc 0)]"
    by (simp add: draw_nap_rectangles_def ex_facts ex_pairs)
  from draw_gate [OF h1 h2, of eventFieldIntervalPlot Map.empty ex_loaded 0 5] h1 h p
  show ?thesis by simp
qed

subsection \<open>Direct and coupled classification of a waking record\<close>

lemma and_not_disjoint:
  fixes u m v :: "'a::len word"
  assumes "u AND m = 0"
  shows "(v AND NOT u) AND m = v AND m"
proof (rule bit_word_eqI)
  fix n assume n: "n < LENGTH('a)"
  from assms have "\<not> bit (u AND m) n" by simp
  then have "\<not> (bit u n \<and> bit m n)" by (simp add: bit_and_iff)
  with n show "bit ((v AND NOT u) AND m) n = bit (v AND m) n"
    by (auto simp: bit_and_iff bit_not_iff)
qed

lemma general_untouched:
  assumes "KS_PLUGIN_UNTOUCHED_MASK K AND KS_EVENT_VIEW_FILTER_MASK K = 0"
    and "KS_PLUGIN_UNTOUCHED_MASK K AND KS_GRAPH_VIEW_FILTER_MASK K = 0"
  shows "nap_rect_check_function_general K
           (Some (en\<lparr>visible := visible en AND NOT (KS_PLUGIN_UNTOUCHED_MASK K)\<rparr>))
         = nap_rect_check_function_general K (Some en)"
  using assms by (simp add: nap_rect_check_function_general_def and_not_disjoint)

lemma general_visible_only:
  "visible en = visible en' \<Longrightarrow>
     nap_rect_check_function_general K (Some en) = nap_rect_check_function_general K (Some en')"
  by (simp add: nap_rect_check_function_general_def)

lemma select_events_direct:
  assumes "get_context (stream_id s) st = Some ctx" and "collected_events ctx = Some c"
    and "\<not> couplebreak_on s"
    and "event_id (entries st e) = waking_event_id ctx"
    and "event_id (entries st e) \<noteq> sswitch_event_id ctx"
    and "tep_read_number_field (sched_waking_pid_field ctx) rec = Some v"
  shows "select_events K s rec e st =
           st\<lparr>context_handler := (context_handler st)(stream_id s \<mapsto>
                 ctx\<lparr>collected_events := Some (c @ [\<lparr>entry = e, field = sint v\<rparr>])\<rparr>),
              entries := (entries st)(e := (entries st e)\<lparr>
                 pid := sint (ucast v :: 32 word),
                 visible := visible (entries st e) AND NOT (KS_PLUGIN_UNTOUCHED_MASK K)\<rparr>)\<rparr>"
  using assms
  by (simp add: select_events_def waking_evt_tep_processing_def
      kshark_data_container_append_def)

lemma select_events_coupled:
  assumes "get_context (stream_id s) st = Some ctx" and "collected_events ctx = Some c"
    and "couplebreak_on s"
    and "event_id (entries st e) = waking_event_id ctx"
    and "event_id (entries st e) \<noteq> sswitch_event_id ctx"
  shows "select_events K s rec e st =
           st\<lparr>context_handler := (context_handler st)(stream_id s \<mapsto>
                 ctx\<lparr>collected_events := Some (c @ [\<lparr>entry = e, field = pid (entries st e)\<rparr>])\<rparr>)\<rparr>"
  using assms
  by (simp add: select_events_def kshark_data_container_append_def)

text \<open>
  C6: a waking entry is classified once on a stream without couplebreak, where the
  \<open>pid\<close> field of its record reads 5, and once on a stream with couplebreak, where the
  entry is owned by task 5 already; the entry has the same visibility flags in both and
  the untouched mask shares no bit with the two view masks. Then both classifications
  append a record with field 5 to the container, and for the target id 5 the two
  candidate predicates of the renderer, through which alone a record takes part in the
  matching, give the same answer on the appended record in both modes.
\<close>

theorem coupled_direct_equivalence:
  fixes K s_d s_c st_d st_c rec_d rec_c e c ctx_d ctx_c
  defines "st_d' \<equiv> select_events K s_d rec_d e st_d"
    and "st_c' \<equiv> select_events K s_c rec_c e st_c"
    and "c' \<equiv> c @ [\<lparr>entry = e, field = 5\<rparr>]"
  defines "ctx_d' \<equiv> ctx_d\<lparr>collected_events := Some c'\<rparr>"
    and "ctx_c' \<equiv> ctx_c\<lparr>collected_events := Some c'\<rparr>"
  assumes d_ctx: "get_context (stream_id s_d) st_d = Some ctx_d"
      "collected_events ctx_d = Some c"
    and d_mode: "\<not> couplebreak_on s_d"
    and d_waking: "event_id (entries st_d e) = waking_event_id ctx_d"
      "event_id (entries st_d e) \<noteq> sswitch_event_id ctx_d"
    and d_read: "tep_read_number_field (sched_waking_pid_field ctx_d) rec_d = Some 5"
    and c_ctx: "get_context (stream_id s_c) st_c = Some ctx_c"
      "collected_events ctx_c = Some c"
    and c_mode: "couplebreak_on s_c"
    and c_waking: "event_id (entries st_c e) = waking_event_id ctx_c"
      "event_id (entries st_c e) \<noteq> sswitch_event_id ctx_c"
    and c_pid: "pid (entries st_c e) = 5"
    and vis: "visible (entries st_c e) = visible (entries st_d e)"
    and masks: "KS_PLUGIN_UNTOUCHED_MASK K AND KS_EVENT_VIEW_FILTER_MASK K = 0"
      "KS_PLUGIN_UNTOUCHED_MASK K AND KS_GRAPH_VIEW_FILTER_MASK K = 0"
  shows "get_context (stream_id s_d) st_d' = Some ctx_d'
       \<and> get_context (stream_id s_c) st_c' = Some ctx_c'
       \<and> nap_rect_check_func_waking K ctx_d' 5 (entries st_d') c' (length c)
           = nap_rect_check_func_waking K ctx_c' 5 (entries st_c') c' (length c)
       \<and> nap_rect_check_func_switch K ctx_d' 5 (entries st_d') c' (length c)
           = nap_rect_check_func_switch K ctx_c' 5 (entries st_c') c' (length c)"
proof -
  have sd: "st_d' = st_d\<lparr>context_handler := (context_handler st_d)(stream_id s_d \<mapsto> ctx_d'),
              entries := (entries st_d)(e := (entries st_d e)\<lparr>pid := 5,
                 visible := visible (entries st_d e) AND NOT (KS_PLUGIN_UNTOUCHED_MASK K)\<rparr>)\<rparr>"
    unfolding st_d'_def ctx_d'_def c'_def
    using select_events_direct [OF d_ctx d_mode d_waking d_read, of K] by simp
  have sc: "st_c' = st_c\<lparr>context_handler := (context_handler st_c)(stream_id s_c \<mapsto> ctx_c')\<rparr>"
    unfolding st_c'_def ctx_c'_def c'_def
    using select_events_coupled [OF c_ctx c_mode c_waking, of K rec_c] c_pid by simp
  have g1: "get_context (stream_id s_d) st_d' = Some ctx_d'"
    by (simp add: sd get_context_def)
  have g2: "get_context (stream_id s_c) st_c' = Some ctx_c'"
    by (simp add: sc get_context_def)
  have gen: "nap_rect_check_function_general K (Some (entries st_d' e))
      = nap_rect_check_function_general K (Some (entries st_c' e))"
    using general_untouched [OF masks, of "entries st_d e"]
      general_visible_only [of "entries st_d e" "entries st_c e" K] vis
    by (simp add: sd sc nap_rect_check_function_general_def)
  have wk: "nap_rect_check_func_waking K ctx_d' 5 (entries st_d') c' (length c)
           = nap_rect_check_func_waking K ctx_c' 5 (entries st_c') c' (length c)"
    using gen d_waking c_waking
    by (simp add: nap_rect_check_func_waking_def c'_def ctx_d'_def ctx_c'_def sd sc)
  have sw: "nap_rect_check_func_switch K ctx_d' 5 (entries st_d') c' (length c)
           = nap_rect_check_func_switch K ctx_c' 5 (entries st_c') c' (length c)"
    using d_waking c_waking
    by (simp add: nap_rect_check_func_switch_def c'_def ctx_d'_def ctx_c'_def sd sc)
  from g1 g2 wk sw show ?thesis by simp
qed


theorem coupled_direct_equivalence_witness:
  "select_events ex_consts ex_stream (Some 5) 11
       (ex_state (Some (ex_ctx (Some [\<lparr>entry = 10, field = - 1\<rparr>]))))
     = ex_state (Some (ex_ctx (Some [\<lparr>entry = 10, field = - 1\<rparr>, \<lparr>entry = 11, field = 5\<rparr>])))
         \<lparr>entries := ex_loaded_entries\<rparr>
   \<and> select_events ex_consts ex_stream_cb None 11
       ((ex_state (Some (ex_ctx_cb (Some [\<lparr>entry = 10, field = - 1\<rparr>]))))
          \<lparr>entries := ex_entries_cb\<rparr>)
     = ex_state (Some (ex_ctx_cb (Some [\<lparr>entry = 10, field = - 1\<rparr>, \<lparr>entry = 11, field = 5\<rparr>])))
         \<lparr>entries := ex_entries_cb\<rparr>
   \<and> nap_rect_check_func_waking ex_consts
         (ex_ctx (Some [\<lparr>entry = 10, field = - 1\<rparr>, \<lparr>entry = 11, field = 5\<rparr>])) 5
         ex_loaded_entries [\<lparr>entry = 10, field = - 1\<rparr>, \<lparr>entry = 11, field = 5\<rparr>] (Suc 0)
   \<and> nap_rect_check_func_waking ex_consts
         (ex_ctx_cb (Some [\<lparr>entry = 10, field = - 1\<rparr>, \<lparr>entry = 11, field = 5\<rparr>])) 5
         ex_entries_cb [\<lparr>entry = 10, field = - 1\<rparr>, \<lparr>entry = 11, field = 5\<rparr>] (Suc 0)"
proof -
  let ?c = "[\<lparr>entry = 10, field = - 1\<rparr>]"
  let ?st_d = "ex_state (Some (ex_ctx (Some ?c)))"
  let ?st_c = "(ex_state (Some (ex_ctx_cb (Some ?c))))\<lparr>entries := ex_entries_cb\<rparr>"
  have d1: "get_context (stream_id ex_stream) ?st_d = Some (ex_ctx (Some ?c))"
    and d2: "collected_events (ex_ctx (Some ?c)) = Some ?c"
    and d3: "\<not> couplebreak_on ex_stream"
    and d4: "event_id (entries ?st_d 11) = waking_event_id (ex_ctx (Some ?c))"
    and d5: "event_id (entries ?st_d 11) \<noteq> sswitch_event_id (ex_ctx (Some ?c))"
    and d6: "tep_read_number_field (sched_waking_pid_field (ex_ctx (Some ?c))) (Some 5) = Some 5"
    by (simp_all add: get_context_def ex_stream_def ex_state_def ex_ctx_def ex_entries_def
        tep_read_number_field_def)
  have c1: "get_context (stream_id ex_stream_cb) ?st_c = Some (ex_ctx_cb (Some ?c))"
    and c2: "collected_events (ex_ctx_cb (Some ?c)) = Some ?c"
    and c3: "couplebreak_on ex_stream_cb"
    and c4: "event_id (entries ?st_c 11) = waking_event_id (ex_ctx_cb (Some ?c))"
    and c5: "event_id (entries ?st_c 11) \<noteq> sswitch_event_id (ex_ctx_cb (Some ?c))"
    and c6: "pid (entries ?st_c 11) = 5"
    and v: "visible (entries ?st_c 11) = visible (entries ?st_d 11)"
    by (simp_all add: get_context_def ex_stream_cb_def ex_state_def ex_ctx_cb_def
        ex_entries_cb_def ex_entries_def ex_consts_def)
  have m: "KS_PLUGIN_UNTOUCHED_MASK ex_consts AND KS_EVENT_VIEW_FILTER_MASK ex_consts = 0"
    "KS_PLUGIN_UNTOUCHED_MASK ex_consts AND KS_GRAPH_VIEW_FILTER_MASK ex_consts = 0"
    by (simp_all add: ex_consts_def)
  have sd: "select_events ex_consts ex_stream (Some 5) 11 ?st_d
     = ex_state (Some (ex_ctx (Some [\<lparr>entry = 10, field = - 1\<rparr>, \<lparr>entry = 11, field = 5\<rparr>])))
         \<lparr>entries := ex_loaded_entries\<rparr>"
    by (simp add: select_events_def get_context_def ex_state_def ex_ctx_def
      ex_stream_def ex_entries_def kshark_data_container_append_def
      waking_evt_tep_processing_def tep_read_number_field_def ex_consts_def
      ex_loaded_entries_def fun_eq_iff)
  have sc: "select_events ex_consts ex_stream_cb None 11 ?st_c
     = ex_state (Some (ex_ctx_cb (Some [\<lparr>entry = 10, field = - 1\<rparr>, \<lparr>entry = 11, field = 5\<rparr>])))
         \<lparr>entries := ex_entries_cb\<rparr>"
    by (simp add: select_events_def get_context_def ex_state_def ex_ctx_cb_def
      ex_stream_cb_def ex_entries_def ex_entries_cb_def kshark_data_container_append_def
      ex_consts_def fun_eq_iff)
  have w: "nap_rect_check_func_waking ex_consts
         (ex_ctx_cb (Some [\<lparr>entry = 10, field = - 1\<rparr>, \<lparr>entry = 11, field = 5\<rparr>])) 5
         ex_entries_cb [\<lparr>entry = 10, field = - 1\<rparr>, \<lparr>entry = 11, field = 5\<rparr>] (Suc 0)"
    by (simp add: nap_rect_check_func_waking_def nap_rect_check_function_general_def
        ex_ctx_cb_def ex_entries_cb_def ex_consts_def)
  have u: "\<And>c c2. (ex_ctx c)\<lparr>collected_events := c2\<rparr> = ex_ctx c2"
    "\<And>c c2. (ex_ctx_cb c)\<lparr>collected_events := c2\<rparr> = ex_ctx_cb c2"
    by (simp_all add: ex_ctx_def ex_ctx_cb_def)
  have "nap_rect_check_func_waking ex_consts
         (ex_ctx (Some [\<lparr>entry = 10, field = - 1\<rparr>, \<lparr>entry = 11, field = 5\<rparr>])) 5
         ex_loaded_entries [\<lparr>entry = 10, field = - 1\<rparr>, \<lparr>entry = 11, field = 5\<rparr>] (Suc 0)
     = nap_rect_check_func_waking ex_consts
         (ex_ctx_cb (Some [\<lparr>entry = 10, field = - 1\<rparr>, \<lparr>entry = 11, field = 5\<rparr>])) 5
         ex_entries_cb [\<lparr>entry = 10, field = - 1\<rparr>, \<lparr>entry = 11, field = 5\<rparr>] (Suc 0)"
    using coupled_direct_equivalence [where K = ex_consts and rec_c = None,
        OF d1 d2 d3 d4 d5 d6 c1 c2 c3 c4 c5 c6 v m]
    by (simp add: sd sc u)
  with sd sc w show ?thesis by simp
qed


subsection \<open>Initialisation with unresolved event ids\<close>

text \<open>
  C2, counterexample: on a host that resolves neither \<open>sched/sched_switch\<close> nor
  \<open>sched/sched_waking\<close> (the lookup gives \<open>-1\<close>), the initializer returns 1, registers
  \<open>_select_events\<close> twice under the id \<open>-1\<close> and the draw handler, and keeps the context.
\<close>

theorem initializer_unresolved_counterexample:
  "kshark_find_event_id (ex_host (- 1)) ''sched/sched_switch'' < 0
   \<and> kshark_find_event_id (ex_host (- 1)) ''sched/sched_waking'' < 0
   \<and> (case KSHARK_PLOT_PLUGIN_INITIALIZER ex_consts (ex_host (- 1)) ex_stream (ex_state None) of
        (ret, stream', st') \<Rightarrow>
          ret = 1
          \<and> event_handlers stream' = [(- 1, Select_events), (- 1, Select_events)]
          \<and> draw_handlers stream' = [Draw_nap_rectangles]
          \<and> get_context 0 st' \<noteq> None)"
  by (simp add: KSHARK_PLOT_PLUGIN_INITIALIZER_def ex_host_def ex_stream_def ex_state_def
      init_context_def kshark_register_event_handler_def kshark_register_draw_handler_def
      get_context_def calloc_context_def Let_def)

text \<open>
  C2, amended: the initializer does not look at the resolved event ids. On a stream
  without a context it returns 0 exactly when a font file is missing and cannot be found,
  the context cannot be created, or the stream is not a tep stream; then the stream is as
  it was (no event or draw handler is registered) and no context is left for it. In every
  other case it returns 1 and registers \<open>_select_events\<close> under the switch id and under the
  waking id, whatever the lookup gave, and the draw handler.
\<close>

theorem initializer_result:
  fixes K H stream st
  defines "fonts_missing \<equiv>
      (font_file st = None \<or> bold_font_path st = None)
      \<and> (ksplot_find_font_file H ''FreeSans'' ''FreeSans'' = None
           \<or> ksplot_find_font_file H ''FreeSans'' ''FreeSansBold'' = None)"
  defines "failed \<equiv> fonts_missing \<or> \<not> context_alloc H \<or> \<not> kshark_is_tep H"
  assumes "get_context (stream_id stream) st = None"
  shows "case KSHARK_PLOT_PLUGIN_INITIALIZER K H stream st of
           (ret, stream', st') \<Rightarrow>
             ret = (if failed then 0 else 1)
             \<and> (failed \<longrightarrow> stream' = stream \<and> get_context (stream_id stream) st' = None)
             \<and> (\<not> failed \<longrightarrow>
                  event_handlers stream' =
                    ((if couplebreak_on stream then COUPLEBREAK_SWT_ID K
                      else kshark_find_event_id H ''sched/sched_waking''), Select_events)
                    # (kshark_find_event_id H ''sched/sched_switch'', Select_events)
                    # event_handlers stream
                  \<and> draw_handlers stream' = Draw_nap_rectangles # draw_handlers stream)"
  using assms
  by (auto simp: KSHARK_PLOT_PLUGIN_INITIALIZER_def init_context_def close_context_def
      kshark_register_event_handler_def kshark_register_draw_handler_def get_context_def
      Let_def split: if_splits)


theorem initializer_result_witness:
  "get_context (stream_id ex_stream) (ex_state None) = None
   \<and> (case KSHARK_PLOT_PLUGIN_INITIALIZER ex_consts ((ex_host 316)\<lparr>kshark_is_tep := False\<rparr>)
           ex_stream (ex_state None) of
        (ret, stream', st') \<Rightarrow>
          ret = 0 \<and> stream' = ex_stream \<and> get_context (stream_id ex_stream) st' = None)
   \<and> (case KSHARK_PLOT_PLUGIN_INITIALIZER ex_consts (ex_host 316) ex_stream (ex_state None) of
        (ret, stream', st') \<Rightarrow>
          ret = 1
          \<and> event_handlers stream' = [(316, Select_events), (316, Select_events)]
          \<and> draw_handlers stream' = [Draw_nap_rectangles])"
proof -
  have h: "get_context (stream_id ex_stream) (ex_state None) = None"
    by (simp add: get_context_def ex_stream_def ex_state_def)
  have e: "event_handlers ex_stream = []" "draw_handlers ex_stream = []"
    "\<not> couplebreak_on ex_stream"
    by (simp_all add: ex_stream_def)
  from initializer_result [OF h, where K = ex_consts
      and H = "(ex_host 316)\<lparr>kshark_is_tep := False\<rparr>"]
    initializer_result [OF h, where K = ex_consts and H = "ex_host 316"] h
  show ?thesis
    by (simp add: ex_host_def e split: prod.splits)
qed


subsection \<open>A switch entry without the state marker\<close>

lemma std_find_None_iff: "std_find s pat = None \<longleftrightarrow> \<not> sublist pat s"
  by (induction s) (auto simp: sublist_Cons_right)

lemma unat_npos_pred: "unat (npos - 1) = 2 ^ 64 - 2"
  by (simp add: npos_def)

lemma get_switch_prev_state_no_marker:
  assumes "\<not> sublist '' ==>'' (info en)" and "length (info en) < 2 ^ 64 - 2"
  shows "get_switch_prev_state en = Inl Out_of_range"
proof -
  from assms(1) have "std_find (info en) '' ==>'' = None"
    by (simp add: std_find_None_iff)
  with assms(2) show ?thesis
    by (simp add: get_switch_prev_state_def unat_npos_pred)
qed

lemma ex_malformed_no_marker: "\<not> sublist '' ==>'' (info (ex_malformed 10))"
proof -
  have "std_find (info (ex_malformed 10)) '' ==>'' = None"
    by (simp add: ex_malformed_def)
  with std_find_None_iff [of "info (ex_malformed 10)" "'' ==>''"] show ?thesis
    by blast
qed

text \<open>
  C7, counterexample: for a switch entry whose info string does not contain
  \<open>" ==>"\<close>, \<open>get_switch_prev_state\<close> throws \<open>std::out_of_range\<close> and \<open>_make_nap_rect\<close>
  passes the fault on; no interval is built, with or without state text.
\<close>

theorem silent_fallback_counterexample:
  "\<not> sublist '' ==>'' (info (ex_malformed 10))
   \<and> get_switch_prev_state (ex_malformed 10) = Inl Out_of_range
   \<and> make_nap_rect ex_cfg Map.empty ex_malformed (graph_bin ex_argv) 0 1
        \<lparr>entry = 10, field = - 1\<rparr> \<lparr>entry = 11, field = 5\<rparr> = Inl Out_of_range"
proof -
  have g: "get_switch_prev_state (ex_malformed 10) = Inl Out_of_range"
    by (simp add: get_switch_prev_state_def ex_malformed_def unat_npos_pred)
  then have "make_nap_rect ex_cfg Map.empty ex_malformed (graph_bin ex_argv) 0 1
        \<lparr>entry = 10, field = - 1\<rparr> \<lparr>entry = 11, field = 5\<rparr> = Inl Out_of_range"
    by (simp add: make_nap_rect_def)
  with g ex_malformed_no_marker show ?thesis by simp
qed

text \<open>
  C7, amended: if the info string of the switch entry does not contain \<open>" ==>"\<close>
  (and is shorter than \<open>2^64 - 2\<close>, as every \<open>std::string\<close> is), then
  \<open>get_switch_prev_state\<close> raises an out-of-range fault, \<open>find\<close> giving \<open>npos\<close> and
  \<open>substr\<close> being called at \<open>npos - 1\<close>, and \<open>_make_nap_rect\<close> raises it too: no
  interval is built.
\<close>

theorem missing_marker_faults:
  assumes "\<not> sublist '' ==>'' (info (es (entry data0)))"
    and "length (info (es (entry data0))) < 2 ^ 64 - 2"
  shows "get_switch_prev_state (es (entry data0)) = Inl Out_of_range
       \<and> make_nap_rect cfg tbl es graph bin0 bin1 data0 data1 = Inl Out_of_range"
  using get_switch_prev_state_no_marker [OF assms]
  by (simp add: make_nap_rect_def)

theorem missing_marker_faults_witness:
  "\<not> sublist '' ==>'' (info (ex_malformed (entry \<lparr>entry = 10, field = - 1\<rparr>)))
   \<and> length (info (ex_malformed (entry \<lparr>entry = 10, field = - 1\<rparr>))) < 2 ^ 64 - 2
   \<and> make_nap_rect ex_cfg Map.empty ex_malformed (graph_bin ex_argv) 0 1
        \<lparr>entry = 10, field = - 1\<rparr> \<lparr>entry = 11, field = 5\<rparr> = Inl Out_of_range"
proof -
  have h1: "\<not> sublist '' ==>'' (info (ex_malformed (entry \<lparr>entry = 10, field = - 1\<rparr>)))"
    using ex_malformed_no_marker by simp
  have h2: "length (info (ex_malformed (entry \<lparr>entry = 10, field = - 1\<rparr>))) < 2 ^ 64 - 2"
    by (simp add: ex_malformed_def)
  from missing_marker_faults [where es = ex_malformed
      and ?data0.0 = "\<lparr>entry = 10, field = - 1\<rparr>", OF h1 h2] h1 h2
  show ?thesis by simp
qed

subsection \<open>The outline colour\<close>

lemma ex_prev_state: "get_switch_prev_state (ex_loaded_entries 10) = Inr CHR ''S''"
  by (simp add: get_switch_prev_state_def ex_loaded_entries_def ex_entries_def)

lemma make_nap_rect_outline:
  assumes "make_nap_rect cfg tbl es graph bin0 bin1 data0 data1 = Inr n"
  shows "line_color (outline_up n) = line_color (outline_down n)
       \<and> line_color (outline_up n) =
           (if use_task_coloring cfg then get_task_color tbl (pid (es (entry data0)))
            else rect_color (rect n))"
  using assms
  by (auto simp: make_nap_rect_def NapRectangle_new_def Let_def split: sum.splits)

text \<open>
  C8: with task colouring enabled and no colour for the task in the table of the host,
  the outline gets the fallback colour of \<open>_get_task_color\<close>, which is
  \<open>Color 0 0 0\<close>, black, since \<open>(uint8_t)256\<close> is 0; it is not the white that the
  comment in the source announces. Evaluated for the switch entry of task 5 of the
  concrete trace, whose fill colour is the blue of state \<open>S\<close>.
\<close>

theorem task_color_fallback:
  "get_task_color Map.empty 5 = Color 0 0 0
   \<and> Color 0 0 0 \<noteq> WHITE
   \<and> (case make_nap_rect (ex_cfg\<lparr>use_task_coloring := True\<rparr>) Map.empty ex_loaded_entries
           (graph_bin ex_argv) 0 1 \<lparr>entry = 10, field = - 1\<rparr> \<lparr>entry = 11, field = 5\<rparr> of
        Inl f \<Rightarrow> False
      | Inr n \<Rightarrow> line_color (outline_up n) = Color 0 0 0
               \<and> line_color (outline_down n) = Color 0 0 0
               \<and> rect_color (rect n) = Color 0 0 255)"
proof -
  have t: "get_task_color Map.empty 5 = Color 0 0 0"
    by (simp add: get_task_color_def)
  have p: "pid (ex_loaded_entries 10) = 5"
    by (simp add: ex_loaded_entries_def ex_entries_def)
  have l: "map_at LETTER_TO_NAME CHR ''S'' = Inr ''sleeping''"
    "map_at PREV_STATE_TO_COLOR CHR ''S'' = Inr (Color 0 0 255)"
    by (simp_all add: map_at_def LETTER_TO_NAME_def PREV_STATE_TO_COLOR_def)
  show ?thesis
    by (simp add: t WHITE_def make_nap_rect_def NapRectangle_new_def ex_prev_state p l Let_def)
qed


subsection \<open>The text colour\<close>

text \<open>Rounding: the error of one operation, and the value for a known exponent.\<close>

lemma round_half_even_error: "\<bar>of_int (round_half_even y) - y\<bar> \<le> 1 / 2"
proof -
  have "of_int \<lfloor>y\<rfloor> \<le> y" "y < of_int \<lfloor>y\<rfloor> + 1" by linarith+
  then show ?thesis
    by (auto simp: round_half_even_def Let_def)
qed

lemma round_half_even_nonneg: "0 \<le> y \<Longrightarrow> 0 \<le> round_half_even y"
  by (auto simp: round_half_even_def Let_def)

lemma two_powi_times_power:
  assumes "0 \<le> e + int n"
  shows "(2::rat) powi e * 2 ^ n = 2 ^ nat (e + int n)"
proof -
  have "(2::rat) powi e * 2 powi (int n) = 2 powi (e + int n)"
    by (simp add: power_int_add)
  moreover have "(2::rat) powi (e + int n) = 2 ^ nat (e + int n)"
    using assms by (simp add: power_int_def)
  ultimately show ?thesis by simp
qed

lemma f32_exponent:
  fixes x :: rat
  assumes e: "- 126 \<le> e" and lo: "2 powi e \<le> \<bar>x\<bar>" and hi: "\<bar>x\<bar> < 2 powi (e + 1)"
  shows "bitlen \<lfloor>\<bar>x\<bar> * 2 ^ 149\<rfloor> = e + 150"
proof -
  let ?n = "\<lfloor>\<bar>x\<bar> * 2 ^ 149\<rfloor>"
  from e have k: "0 \<le> e + 149" by simp
  have p: "(2::rat) powi e * 2 ^ 149 = 2 ^ nat (e + 149)"
    using two_powi_times_power [of e 149] k by simp
  have p1: "(2::rat) powi (e + 1) * 2 ^ 149 = 2 ^ nat (e + 150)"
    using two_powi_times_power [of "e + 1" 149] k by (simp add: add.commute add.left_commute)
  have pos: "(0::rat) < 2 ^ 149" by simp
  from lo have "2 powi e * 2 ^ 149 \<le> \<bar>x\<bar> * 2 ^ 149"
    by (rule mult_right_mono) simp
  then have "(of_int (2 ^ nat (e + 149)) :: rat) \<le> \<bar>x\<bar> * 2 ^ 149" by (simp only: p of_int_power of_int_numeral)
  then have lo': "2 ^ nat (e + 149) \<le> ?n" by (simp only: le_floor_iff)
  from hi pos have "\<bar>x\<bar> * 2 ^ 149 < 2 powi (e + 1) * 2 ^ 149"
    by (rule mult_strict_right_mono)
  then have "\<bar>x\<bar> * 2 ^ 149 < of_int (2 ^ nat (e + 150))" by (simp only: p1 of_int_power of_int_numeral)
  then have hi': "?n < 2 ^ nat (e + 150)" by (simp only: floor_less_iff)
  from hi' k have "bitlen ?n \<le> e + 150" by (simp only: bitlen_le_iff_power) simp
  moreover have "e + 150 \<le> bitlen ?n"
  proof -
    have "nat (e + 150) - 1 = nat (e + 149)" using k by simp
    with lo' show ?thesis by (simp only: bitlen_ge_iff_power) simp
  qed
  ultimately show ?thesis by simp
qed

lemma f32_round_normal:
  assumes "- 126 \<le> e" and "2 powi e \<le> \<bar>x\<bar>" and "\<bar>x\<bar> < 2 powi (e + 1)"
  shows "f32_round x = f32_round_at e x"
proof -
  have "(0::rat) < 2 powi e" by (rule zero_less_power_int) simp
  from this assms(2) have "0 < \<bar>x\<bar>" by (rule less_le_trans)
  then have "x \<noteq> 0" by simp
  with f32_exponent [OF assms] assms(1) show ?thesis
    by (simp only: f32_round_def f32_round_at_def Let_def max_def) simp
qed

lemma f32_round_error:
  assumes "0 \<le> x" and "x < 256"
  shows "\<bar>f32_round x - x\<bar> \<le> 1 / 131072 \<and> 0 \<le> f32_round x"
proof (cases "x = 0")
  case True
  then show ?thesis by (simp add: f32_round_def)
next
  case False
  define n where "n = \<lfloor>\<bar>x\<bar> * 2 ^ 149\<rfloor>"
  define e where "e = max (bitlen n - 150) (- 126)"
  define q :: rat where "q = 2 powi (e - 23)"
  have fr: "f32_round x = of_int (round_half_even (x / q)) * q"
    using False by (simp only: f32_round_def Let_def n_def e_def q_def if_False)
  have "\<bar>x\<bar> * 2 ^ 149 < 256 * 2 ^ 149"
    using assms by (intro mult_strict_right_mono) simp_all
  also have "(256::rat) * 2 ^ 149 = of_int (2 ^ nat 157)" by simp
  finally have "n < 2 ^ nat 157" by (simp only: n_def floor_less_iff)
  then have "bitlen n \<le> 157" by (simp only: bitlen_le_iff_power) simp
  then have e7: "e - 23 \<le> - 16" by (simp add: e_def)
  have qpos: "0 < q" unfolding q_def by (rule zero_less_power_int) simp
  have "q \<le> 2 powi (- 16)" unfolding q_def
    using e7 by (intro power_int_increasing) simp_all
  also have "(2::rat) powi (- 16) = 1 / 65536" by (simp add: power_int_def power_divide)
  finally have qle: "q \<le> 1 / 65536" .
  have "f32_round x - x = (of_int (round_half_even (x / q)) - x / q) * q"
    using qpos by (simp add: fr field_simps)
  then have "\<bar>f32_round x - x\<bar> = \<bar>of_int (round_half_even (x / q)) - x / q\<bar> * q"
    using qpos by (simp add: abs_mult)
  also have "\<dots> \<le> 1 / 2 * q"
    using qpos round_half_even_error [of "x / q"] by (intro mult_right_mono) simp_all
  also have "\<dots> \<le> 1 / 131072" using qle by simp
  finally have err: "\<bar>f32_round x - x\<bar> \<le> 1 / 131072" .
  have "0 \<le> x / q" using assms(1) qpos by simp
  then have "0 \<le> round_half_even (x / q)" by (rule round_half_even_nonneg)
  then have "0 \<le> f32_round x" using qpos by (simp add: fr)
  with err show ?thesis by simp
qed

lemma f32_round_at_literal:
  "f32_round_at 7 x = of_int (round_half_even (x * 65536)) / 65536"
  "f32_round_at 6 x = of_int (round_half_even (x * 131072)) / 131072"
  "f32_round_at 5 x = of_int (round_half_even (x * 262144)) / 262144"
  "f32_round_at 4 x = of_int (round_half_even (x * 524288)) / 524288"
  "f32_round_at 3 x = of_int (round_half_even (x * 1048576)) / 1048576"
  "f32_round_at 2 x = of_int (round_half_even (x * 2097152)) / 2097152"
  "f32_round_at 1 x = of_int (round_half_even (x * 4194304)) / 4194304"
  "f32_round_at 0 x = of_int (round_half_even (x * 8388608)) / 8388608"
  "f32_round_at (- 1) x = of_int (round_half_even (x * 16777216)) / 16777216"
  "f32_round_at (- 2) x = of_int (round_half_even (x * 33554432)) / 33554432"
  "f32_round_at (- 3) x = of_int (round_half_even (x * 67108864)) / 67108864"
  "f32_round_at (- 4) x = of_int (round_half_even (x * 134217728)) / 134217728"
  by (simp_all add: f32_round_at_def power_int_def power_divide)

lemma f32_round_range_7:
  "128 \<le> \<bar>x\<bar> \<Longrightarrow> \<bar>x\<bar> < 256 \<Longrightarrow> f32_round x = f32_round_at 7 x"
  using f32_round_normal [of 7 x] by (simp add: power_int_def power_divide)

lemma f32_round_range_6:
  "64 \<le> \<bar>x\<bar> \<Longrightarrow> \<bar>x\<bar> < 128 \<Longrightarrow> f32_round x = f32_round_at 6 x"
  using f32_round_normal [of 6 x] by (simp add: power_int_def power_divide)

lemma f32_round_range_5:
  "32 \<le> \<bar>x\<bar> \<Longrightarrow> \<bar>x\<bar> < 64 \<Longrightarrow> f32_round x = f32_round_at 5 x"
  using f32_round_normal [of 5 x] by (simp add: power_int_def power_divide)

lemma f32_round_range_4:
  "16 \<le> \<bar>x\<bar> \<Longrightarrow> \<bar>x\<bar> < 32 \<Longrightarrow> f32_round x = f32_round_at 4 x"
  using f32_round_normal [of 4 x] by (simp add: power_int_def power_divide)

lemma f32_round_range_3:
  "8 \<le> \<bar>x\<bar> \<Longrightarrow> \<bar>x\<bar> < 16 \<Longrightarrow> f32_round x = f32_round_at 3 x"
  using f32_round_normal [of 3 x] by (simp add: power_int_def power_divide)

lemma f32_round_range_2:
  "4 \<le> \<bar>x\<bar> \<Longrightarrow> \<bar>x\<bar> < 8 \<Longrightarrow> f32_round x = f32_round_at 2 x"
  using f32_round_normal [of 2 x] by (simp add: power_int_def power_divide)

lemma f32_round_range_1:
  "2 \<le> \<bar>x\<bar> \<Longrightarrow> \<bar>x\<bar> < 4 \<Longrightarrow> f32_round x = f32_round_at 1 x"
  using f32_round_normal [of 1 x] by (simp add: power_int_def power_divide)

lemma f32_round_range_0:
  "1 \<le> \<bar>x\<bar> \<Longrightarrow> \<bar>x\<bar> < 2 \<Longrightarrow> f32_round x = f32_round_at 0 x"
  using f32_round_normal [of 0 x] by (simp add: power_int_def power_divide)

lemma f32_round_range_m1:
  "1 / 2 \<le> \<bar>x\<bar> \<Longrightarrow> \<bar>x\<bar> < 1 \<Longrightarrow> f32_round x = f32_round_at (- 1) x"
  using f32_round_normal [of "- 1" x] by (simp add: power_int_def power_divide)

lemma f32_round_range_m2:
  "1 / 4 \<le> \<bar>x\<bar> \<Longrightarrow> \<bar>x\<bar> < 1 / 2 \<Longrightarrow> f32_round x = f32_round_at (- 2) x"
  using f32_round_normal [of "- 2" x] by (simp add: power_int_def power_divide)

lemma f32_round_range_m3:
  "1 / 8 \<le> \<bar>x\<bar> \<Longrightarrow> \<bar>x\<bar> < 1 / 4 \<Longrightarrow> f32_round x = f32_round_at (- 3) x"
  using f32_round_normal [of "- 3" x] by (simp add: power_int_def power_divide)

lemma f32_round_range_m4:
  "1 / 16 \<le> \<bar>x\<bar> \<Longrightarrow> \<bar>x\<bar> < 1 / 8 \<Longrightarrow> f32_round x = f32_round_at (- 4) x"
  using f32_round_normal [of "- 4" x] by (simp add: power_int_def power_divide)

lemmas f32_round_ranges = f32_round_range_7 f32_round_range_6 f32_round_range_5 f32_round_range_4 f32_round_range_3 f32_round_range_2 f32_round_range_1 f32_round_range_0 f32_round_range_m1 f32_round_range_m2 f32_round_range_m3 f32_round_range_m4

lemma f32_round_zero: "f32_round 0 = 0"
  by (simp add: f32_round_def)

lemma f32_round_slow_eq: "x \<noteq> 0 \<Longrightarrow> f32_round x = f32_round_slow x"
  by (simp add: f32_round_def f32_round_slow_def)

lemma f32_round_code:
  "f32_round x =
     (if x = 0 then 0
      else if 128 \<le> \<bar>x\<bar> \<and> \<bar>x\<bar> < 256 then of_int (round_half_even (x * 65536)) / 65536
      else if 64 \<le> \<bar>x\<bar> \<and> \<bar>x\<bar> < 128 then of_int (round_half_even (x * 131072)) / 131072
      else if 32 \<le> \<bar>x\<bar> \<and> \<bar>x\<bar> < 64 then of_int (round_half_even (x * 262144)) / 262144
      else if 16 \<le> \<bar>x\<bar> \<and> \<bar>x\<bar> < 32 then of_int (round_half_even (x * 524288)) / 524288
      else if 8 \<le> \<bar>x\<bar> \<and> \<bar>x\<bar> < 16 then of_int (round_half_even (x * 1048576)) / 1048576
      else if 4 \<le> \<bar>x\<bar> \<and> \<bar>x\<bar> < 8 then of_int (round_half_even (x * 2097152)) / 2097152
      else if 2 \<le> \<bar>x\<bar> \<and> \<bar>x\<bar> < 4 then of_int (round_half_even (x * 4194304)) / 4194304
      else if 1 \<le> \<bar>x\<bar> \<and> \<bar>x\<bar> < 2 then of_int (round_half_even (x * 8388608)) / 8388608
      else if 1 / 2 \<le> \<bar>x\<bar> \<and> \<bar>x\<bar> < 1 then of_int (round_half_even (x * 16777216)) / 16777216
      else if 1 / 4 \<le> \<bar>x\<bar> \<and> \<bar>x\<bar> < 1 / 2 then of_int (round_half_even (x * 33554432)) / 33554432
      else if 1 / 8 \<le> \<bar>x\<bar> \<and> \<bar>x\<bar> < 1 / 4 then of_int (round_half_even (x * 67108864)) / 67108864
      else if 1 / 16 \<le> \<bar>x\<bar> \<and> \<bar>x\<bar> < 1 / 8 then of_int (round_half_even (x * 134217728)) / 134217728
      else f32_round_slow x)"
proof (cases "x = 0")
  case True
  then show ?thesis by (simp only: if_True f32_round_zero simp_thms)
next
  case n0: False
  show ?thesis
  proof (cases "128 \<le> \<bar>x\<bar> \<and> \<bar>x\<bar> < 256")
    case True
    then have "f32_round x = f32_round_at 7 x" using f32_round_range_7 [of x] by blast
    with n0 True show ?thesis
      by (simp only: if_True if_False simp_thms f32_round_at_literal)
  next
    case c0: False
    show ?thesis
    proof (cases "64 \<le> \<bar>x\<bar> \<and> \<bar>x\<bar> < 128")
      case True
      then have "f32_round x = f32_round_at 6 x" using f32_round_range_6 [of x] by blast
      with n0 c0 True show ?thesis
        by (simp only: if_True if_False simp_thms f32_round_at_literal)
    next
      case c1: False
      show ?thesis
      proof (cases "32 \<le> \<bar>x\<bar> \<and> \<bar>x\<bar> < 64")
        case True
        then have "f32_round x = f32_round_at 5 x" using f32_round_range_5 [of x] by blast
        with n0 c0 c1 True show ?thesis
          by (simp only: if_True if_False simp_thms f32_round_at_literal)
      next
        case c2: False
        show ?thesis
        proof (cases "16 \<le> \<bar>x\<bar> \<and> \<bar>x\<bar> < 32")
          case True
          then have "f32_round x = f32_round_at 4 x" using f32_round_range_4 [of x] by blast
          with n0 c0 c1 c2 True show ?thesis
            by (simp only: if_True if_False simp_thms f32_round_at_literal)
        next
          case c3: False
          show ?thesis
          proof (cases "8 \<le> \<bar>x\<bar> \<and> \<bar>x\<bar> < 16")
            case True
            then have "f32_round x = f32_round_at 3 x" using f32_round_range_3 [of x] by blast
            with n0 c0 c1 c2 c3 True show ?thesis
              by (simp only: if_True if_False simp_thms f32_round_at_literal)
          next
            case c4: False
            show ?thesis
            proof (cases "4 \<le> \<bar>x\<bar> \<and> \<bar>x\<bar> < 8")
              case True
              then have "f32_round x = f32_round_at 2 x" using f32_round_range_2 [of x] by blast
              with n0 c0 c1 c2 c3 c4 True show ?thesis
                by (simp only: if_True if_False simp_thms f32_round_at_literal)
            next
              case c5: False
              show ?thesis
              proof (cases "2 \<le> \<bar>x\<bar> \<and> \<bar>x\<bar> < 4")
                case True
                then have "f32_round x = f32_round_at 1 x" using f32_round_range_1 [of x] by blast
                with n0 c0 c1 c2 c3 c4 c5 True show ?thesis
                  by (simp only: if_True if_False simp_thms f32_round_at_literal)
              next
                case c6: False
                show ?thesis
                proof (cases "1 \<le> \<bar>x\<bar> \<and> \<bar>x\<bar> < 2")
                  case True
                  then have "f32_round x = f32_round_at 0 x" using f32_round_range_0 [of x] by blast
                  with n0 c0 c1 c2 c3 c4 c5 c6 True show ?thesis
                    by (simp only: if_True if_False simp_thms f32_round_at_literal)
                next
                  case c7: False
                  show ?thesis
                  proof (cases "1 / 2 \<le> \<bar>x\<bar> \<and> \<bar>x\<bar> < 1")
                    case True
                    then have "f32_round x = f32_round_at (- 1) x" using f32_round_range_m1 [of x] by blast
                    with n0 c0 c1 c2 c3 c4 c5 c6 c7 True show ?thesis
                      by (simp only: if_True if_False simp_thms f32_round_at_literal)
                  next
                    case c8: False
                    show ?thesis
                    proof (cases "1 / 4 \<le> \<bar>x\<bar> \<and> \<bar>x\<bar> < 1 / 2")
                      case True
                      then have "f32_round x = f32_round_at (- 2) x" using f32_round_range_m2 [of x] by blast
                      with n0 c0 c1 c2 c3 c4 c5 c6 c7 c8 True show ?thesis
                        by (simp only: if_True if_False simp_thms f32_round_at_literal)
                    next
                      case c9: False
                      show ?thesis
                      proof (cases "1 / 8 \<le> \<bar>x\<bar> \<and> \<bar>x\<bar> < 1 / 4")
                        case True
                        then have "f32_round x = f32_round_at (- 3) x" using f32_round_range_m3 [of x] by blast
                        with n0 c0 c1 c2 c3 c4 c5 c6 c7 c8 c9 True show ?thesis
                          by (simp only: if_True if_False simp_thms f32_round_at_literal)
                      next
                        case c10: False
                        show ?thesis
                        proof (cases "1 / 16 \<le> \<bar>x\<bar> \<and> \<bar>x\<bar> < 1 / 8")
                          case True
                          then have "f32_round x = f32_round_at (- 4) x" using f32_round_range_m4 [of x] by blast
                          with n0 c0 c1 c2 c3 c4 c5 c6 c7 c8 c9 c10 True show ?thesis
                            by (simp only: if_True if_False simp_thms f32_round_at_literal)
                        next
                          case c11: False
                          from n0 c0 c1 c2 c3 c4 c5 c6 c7 c8 c9 c10 c11 show ?thesis
                            by (simp only: if_False simp_thms f32_round_slow_eq)
                        qed
                      qed
                    qed
                  qed
                qed
              qed
            qed
          qed
        qed
      qed
    qed
  qed
qed

lemma floor_rat_numeral_divide:
  "\<lfloor>(numeral a :: rat) / numeral b\<rfloor> = numeral a div numeral b"
  by (metis floor_divide_of_int_eq of_int_numeral)

lemmas f32_eval = f32_round_code round_half_even_def floor_rat_numeral_divide

text \<open>
  The computed intensity differs from the luminance by less than a thousandth, and is
  at most 128 for every colour whose luminance is exactly 128.
\<close>

lemma f32_round_between:
  assumes "0 \<le> x" and "x < 256"
  shows "x - 1 / 131072 \<le> f32_round x" and "f32_round x \<le> x + 1 / 131072"
    and "0 \<le> f32_round x"
  using f32_round_error [OF assms] by linarith+

lemma intensity_rgb_error:
  assumes r: "0 \<le> r" "r \<le> 255" and g: "0 \<le> g" "g \<le> 255" and b: "0 \<le> b" "b \<le> 255"
  shows "\<bar>intensity_rgb r g b - of_int (299 * r + 587 * g + 114 * b) / 1000\<bar> < 1 / 1000"
proof -
  define R G B :: rat where "R = of_int r" and "G = of_int g" and "B = of_int b"
  have R: "0 \<le> R" "R \<le> 255" and G: "0 \<le> G" "G \<le> 255" and B: "0 \<le> B" "B \<le> 255"
    using r g b by (simp_all add: R_def G_def B_def)
  define xb xg xr where "xb = B * (15300821 / 134217728)"
    and "xg = G * (4924113 / 8388608)" and "xr = R * (10032775 / 33554432)"
  define pb pg pr where "pb = f32_round xb" and "pg = f32_round xg" and "pr = f32_round xr"
  define s1 where "s1 = f32_round (pb + pg)"
  define s where "s = f32_round (s1 + pr)"
  have s: "intensity_rgb r g b = s"
    by (simp add: intensity_rgb_def s_def s1_def pb_def pg_def pr_def xb_def xg_def xr_def
        R_def G_def B_def)
  have xb: "0 \<le> xb" "xb < 291 / 10" using B by (simp_all add: xb_def)
  have xg: "0 \<le> xg" "xg < 1497 / 10" using G by (simp_all add: xg_def)
  have xr: "0 \<le> xr" "xr < 763 / 10" using R by (simp_all add: xr_def)
  have pb: "xb - 1 / 131072 \<le> pb" "pb \<le> xb + 1 / 131072" "0 \<le> pb"
    unfolding pb_def using xb by (intro f32_round_between; simp)+
  have pg: "xg - 1 / 131072 \<le> pg" "pg \<le> xg + 1 / 131072" "0 \<le> pg"
    unfolding pg_def using xg by (intro f32_round_between; simp)+
  have pr: "xr - 1 / 131072 \<le> pr" "pr \<le> xr + 1 / 131072" "0 \<le> pr"
    unfolding pr_def using xr by (intro f32_round_between; simp)+
  have a1: "0 \<le> pb + pg" "pb + pg < 256" using pb pg xb xg by linarith+
  have s1: "pb + pg - 1 / 131072 \<le> s1" "s1 \<le> pb + pg + 1 / 131072" "0 \<le> s1"
    unfolding s1_def using a1 by (intro f32_round_between; simp)+
  have a2: "0 \<le> s1 + pr" "s1 + pr < 256" using s1 pb pg pr xb xg xr by linarith+
  have s2: "s1 + pr - 1 / 131072 \<le> s" "s \<le> s1 + pr + 1 / 131072"
    unfolding s_def using a2 by (intro f32_round_between; simp)+
  have lo: "xb + xg + xr - 5 / 131072 \<le> s" using s2 s1 pb pg pr by linarith
  have hi: "s \<le> xb + xg + xr + 5 / 131072" using s2 s1 pb pg pr by linarith
  define E where "E = (299 * R + 587 * G + 114 * B) / 1000"
  have E: "of_int (299 * r + 587 * g + 114 * b) / 1000 = E"
    by (simp add: E_def R_def G_def B_def)
  have d1: "xb + xg + xr - E \<le> 1 / 100000"
    using R G B by (simp add: xb_def xg_def xr_def E_def field_simps)
  have d2: "- (1 / 100000) \<le> xb + xg + xr - E"
    using R G B by (simp add: xb_def xg_def xr_def E_def field_simps)
  from lo hi d1 d2 have "\<bar>s - E\<bar> < 1 / 1000" by linarith
  then show ?thesis by (simp only: s E)
qed

lemma upto_0_255: "[0..255] = 0 # 1 # [2..255]"
  by (simp add: upto_rec1)

lemma all_boundary_ok: "list_all boundary_ok [0..255]"
  unfolding upto_0_255
  by (simp add: upto_rec_numeral boundary_ok_def boundary_check_def intensity_rgb_def f32_eval)

lemma boundary_intensity:
  assumes r: "0 \<le> r" "r \<le> 255" and g: "0 \<le> g" "g \<le> 255" and b: "0 \<le> b" "b \<le> 255"
    and eq: "299 * r + 587 * g + 114 * b = 128000"
  shows "intensity_rgb r g b \<le> 128"
proof -
  from r have "r \<in> set [0..255]" by simp
  with all_boundary_ok have ok: "boundary_ok r" by (simp only: list_all_iff)
  define g0 where "g0 = (47 * (128000 - 299 * r)) mod 114"
  have "128000 - 299 * r = 587 * g + 114 * b" using eq by linarith
  then have "47 * (128000 - 299 * r) = g + (242 * g + 47 * b) * 114" by simp
  then have g0: "g0 = g mod 114" by (simp only: g0_def mod_mult_self1)
  have k: "128000 - 299 * r - 587 * g = 114 * b" using eq by linarith
  have chk: "boundary_check r g"
  proof -
    from g consider "g div 114 = 0" | "g div 114 = 1" | "g div 114 = 2" by linarith
    then show ?thesis
    proof cases
      case 1
      then have "g = g0" using g0 by presburger
      with ok show ?thesis by (simp add: boundary_ok_def g0_def)
    next
      case 2
      then have "g = g0 + 114" using g0 by presburger
      with ok show ?thesis by (simp add: boundary_ok_def g0_def)
    next
      case 3
      then have "g = g0 + 228" using g0 by presburger
      with ok show ?thesis by (simp add: boundary_ok_def g0_def)
    qed
  qed
  then show ?thesis using g b by (simp add: boundary_check_def k)
qed


lemma f32_constants:
  "f32_round (114 / 1000) = 15300821 / 134217728"
  "f32_round (587 / 1000) = 4924113 / 8388608"
  "f32_round (299 / 1000) = 10032775 / 33554432"
  by (simp_all add: f32_eval)

lemma uint8_range: "0 \<le> uint (w :: 8 word)" "uint w \<le> 255"
  using uint_lt2p [of w] by simp_all

lemma get_color_intensity_rgb:
  "get_color_intensity c = intensity_rgb (uint (c_r c)) (uint (c_g c)) (uint (c_b c))"
  unfolding get_color_intensity_def intensity_rgb_def f32_add_def f32_mul_def f32_constants
  by simp

lemma luminance_rgb:
  "luminance c = of_int (299 * uint (c_r c) + 587 * uint (c_g c) + 114 * uint (c_b c)) / 1000"
  by (simp add: luminance_def)

lemma text_colour_by_luminance:
  "black_or_white_text (get_color_intensity c) = (if 128 < luminance c then BLACK else WHITE)"
proof -
  define r g b where "r = uint (c_r c)" and "g = uint (c_g c)" and "b = uint (c_b c)"
  define n where "n = 299 * r + 587 * g + 114 * b"
  have rg: "0 \<le> r" "r \<le> 255" "0 \<le> g" "g \<le> 255" "0 \<le> b" "b \<le> 255"
    by (simp_all add: r_def g_def b_def uint8_range)
  have i: "get_color_intensity c = intensity_rgb r g b"
    by (simp only: get_color_intensity_rgb r_def g_def b_def)
  have l: "luminance c = of_int n / 1000"
    by (simp only: luminance_rgb r_def g_def b_def n_def)
  have err: "\<bar>intensity_rgb r g b - of_int n / 1000\<bar> < 1 / 1000"
    unfolding n_def using rg by (intro intensity_rgb_error)
  have bw: "\<And>y. black_or_white_text y = (if 128 < y then BLACK else WHITE)"
    by (simp add: black_or_white_text_def INTENSITY_LIMIT_def)
  consider "n < 128000" | "n = 128000" | "128000 < n" by linarith
  then show ?thesis
  proof cases
    case 1
    then have "n \<le> 127999" by simp
    then have "(of_int n :: rat) \<le> of_int 127999" by (simp only: of_int_le_iff)
    then have "(of_int n :: rat) \<le> 127999" by simp
    with err have "\<not> 128 < intensity_rgb r g b" "\<not> 128 < (of_int n :: rat) / 1000"
      by linarith+
    then show ?thesis by (simp add: bw i l)
  next
    case 2
    with rg have "intensity_rgb r g b \<le> 128"
      by (intro boundary_intensity) (simp_all add: n_def)
    moreover from 2 have "(of_int n :: rat) / 1000 = 128" by simp
    ultimately show ?thesis by (simp add: bw i l)
  next
    case 3
    then have "128001 \<le> n" by simp
    then have "(of_int 128001 :: rat) \<le> of_int n" by (simp only: of_int_le_iff)
    then have "(128001 :: rat) \<le> of_int n" by simp
    with err have "128 < intensity_rgb r g b" "128 < (of_int n :: rat) / 1000"
      by linarith+
    then show ?thesis by (simp add: bw i l)
  qed
qed

text \<open>
  C9: the text colour is black exactly when the computed intensity exceeds 128 and
  white otherwise; intensity 128 gives white, 129 black, 0 white; and for every colour,
  the text colour that \<open>_black_or_white_text\<close> gives for the intensity that
  \<open>_get_color_intensity\<close> computes in single precision is black exactly when the
  luminance \<open>0.299 R + 0.587 G + 0.114 B\<close> exceeds 128, and white otherwise.
\<close>

theorem contrast_law:
  "(black_or_white_text x = BLACK \<longleftrightarrow> 128 < x)
   \<and> (black_or_white_text x = WHITE \<longleftrightarrow> x \<le> 128)
   \<and> black_or_white_text 128 = WHITE
   \<and> black_or_white_text 129 = BLACK
   \<and> black_or_white_text 0 = WHITE
   \<and> black_or_white_text (get_color_intensity c)
        = (if 128 < luminance c then BLACK else WHITE)
   \<and> (black_or_white_text (get_color_intensity c) = BLACK \<longleftrightarrow> 128 < luminance c)
   \<and> (black_or_white_text (get_color_intensity c) = WHITE \<longleftrightarrow> luminance c \<le> 128)"
proof -
  have bw: "\<And>y. black_or_white_text y = (if 128 < y then BLACK else WHITE)"
    by (simp add: black_or_white_text_def INTENSITY_LIMIT_def)
  have ne: "BLACK \<noteq> WHITE" "WHITE \<noteq> BLACK" by (simp_all add: BLACK_def WHITE_def)
  have a: "black_or_white_text y = BLACK \<longleftrightarrow> 128 < y" for y
    using ne by (simp add: bw)
  have b: "black_or_white_text y = WHITE \<longleftrightarrow> y \<le> 128" for y
    using ne by (simp add: bw not_less)
  have k: "black_or_white_text 128 = WHITE" "black_or_white_text 129 = BLACK"
    "black_or_white_text 0 = WHITE"
    by (simp_all add: bw)
  note t = text_colour_by_luminance [of c]
  have ta: "black_or_white_text (get_color_intensity c) = BLACK \<longleftrightarrow> 128 < luminance c"
    using ne by (simp add: t)
  have tb: "black_or_white_text (get_color_intensity c) = WHITE \<longleftrightarrow> luminance c \<le> 128"
    using ne by (simp add: t not_less)
  from a [of x] b [of x] k t ta tb show ?thesis by blast
qed

theorem contrast_law_witness:
  "luminance (Color 128 128 128) = 128
   \<and> black_or_white_text (get_color_intensity (Color 128 128 128)) = WHITE
   \<and> luminance (Color 129 129 129) = 129
   \<and> black_or_white_text (get_color_intensity (Color 129 129 129)) = BLACK
   \<and> luminance (Color 0 0 0) = 0
   \<and> black_or_white_text (get_color_intensity (Color 0 0 0)) = WHITE
   \<and> luminance (Color 255 100 255) = 164015 / 1000
   \<and> black_or_white_text (get_color_intensity (Color 255 100 255)) = BLACK
   \<and> luminance (Color 0 0 255) = 2907 / 100
   \<and> black_or_white_text (get_color_intensity (Color 0 0 255)) = WHITE"
proof -
  have l: "luminance (Color 128 128 128) = 128" "luminance (Color 129 129 129) = 129"
    "luminance (Color 0 0 0) = 0" "luminance (Color 255 100 255) = 164015 / 1000"
    "luminance (Color 0 0 255) = 2907 / 100"
    by (simp_all add: luminance_def)
  from contrast_law [of 0 "Color 128 128 128"] contrast_law [of 0 "Color 129 129 129"]
    contrast_law [of 0 "Color 0 0 0"] contrast_law [of 0 "Color 255 100 255"]
    contrast_law [of 0 "Color 0 0 255"]
  show ?thesis by (simp add: l)
qed

end
